theory Spec2Isabelle
  imports Complex_Main
begin

section \<open>Gas lift and choke optimisation: the embedding\<close>

text \<open>
  The program is one Python class, \<^verbatim>\<open>GasLiftChokeOptimizer\<close>, built on numpy, pandas
  and scikit-learn. Floating-point numbers are idealised as \<^typ>\<open>real\<close>; arrays are lists;
  a data frame is the ordered list of its named columns; the object's four fields are a
  record that every method takes and returns; the process-wide numpy random generator
  is a state of an abstract type \<open>'g\<close> threaded through the methods that draw from it.
  What the libraries compute (the generator's raw draws, the shuffle of the split, the
  fitting of a regressor and its score) is taken as a parameter.
\<close>

subsection \<open>Exceptions\<close>

text \<open>
  \<open>ValueError\<close>, \<open>KeyError\<close> and \<open>AttributeError\<close> are the Python exceptions the
  methods can raise. \<open>InvalidIntervalError\<close>, \<open>SchemaMismatchError\<close> and
  \<open>InsufficientDataError\<close> are the error classes of the specification's taxonomy; the
  source defines no class of these names and no function below returns them.
\<close>

datatype exn =
    ValueError | KeyError | AttributeError
  | InvalidIntervalError | SchemaMismatchError | InsufficientDataError

subsection \<open>numpy\<close>

text \<open>
  \<^verbatim>\<open>np.linspace(start, stop, num)\<close> with the default \<^verbatim>\<open>endpoint=True\<close>: the step is
  \<open>(stop - start) / (num - 1)\<close>, point \<open>i\<close> is \<open>i * step + start\<close>, and the last point is
  then overwritten with \<open>stop\<close>. With \<open>num = 1\<close> there is no step and the only point is
  \<open>start\<close>.
\<close>

definition np_linspace :: "real \<Rightarrow> real \<Rightarrow> nat \<Rightarrow> real list" where
  "np_linspace start stop num =
     (let dv = num - 1;
          delta = stop - start;
          y = (if 0 < dv then map (\<lambda>i. real i * (delta / real dv) + start) [0..<num]
               else map (\<lambda>i. real i * delta + start) [0..<num])
      in if 1 < num then y[num - 1 := stop] else y)"

text \<open>
  \<^verbatim>\<open>np.argmax\<close>: the index of the first occurrence of the maximum; a later element
  replaces the running best only when it is strictly greater. An empty array raises
  \<^verbatim>\<open>ValueError\<close>.
\<close>

fun argmax_from :: "real list \<Rightarrow> nat \<Rightarrow> nat \<Rightarrow> real \<Rightarrow> nat" where
  "argmax_from [] i best_idx best = best_idx"
| "argmax_from (x # xs) i best_idx best =
     (if best < x then argmax_from xs (Suc i) i x
      else argmax_from xs (Suc i) best_idx best)"

definition np_argmax :: "real list \<Rightarrow> exn + nat" where
  "np_argmax a = (case a of [] \<Rightarrow> Inl ValueError | x # xs \<Rightarrow> Inr (argmax_from xs 1 0 x))"

definition np_maximum :: "real list \<Rightarrow> real \<Rightarrow> real list" where
  "np_maximum a c = map (\<lambda>x. max x c) a"

definition np_sqrt :: "real list \<Rightarrow> real list" where
  "np_sqrt a = map sqrt a"

text \<open>Element-wise arithmetic on arrays of one length, and with a scalar.\<close>

definition arr_add :: "real list \<Rightarrow> real list \<Rightarrow> real list" where
  "arr_add a b = map2 (+) a b"

definition arr_sub :: "real list \<Rightarrow> real list \<Rightarrow> real list" where
  "arr_sub a b = map2 (-) a b"

definition arr_mul :: "real list \<Rightarrow> real list \<Rightarrow> real list" where
  "arr_mul a b = map2 (*) a b"

definition scalar_mul :: "real \<Rightarrow> real list \<Rightarrow> real list" where
  "scalar_mul c a = map (\<lambda>x. c * x) a"

definition scalar_add :: "real \<Rightarrow> real list \<Rightarrow> real list" where
  "scalar_add c a = map (\<lambda>x. c + x) a"

subsection \<open>The process-wide random generator\<close>

text \<open>
  The generator behind \<^verbatim>\<open>np.random\<close>: one raw draw from \<open>[0, 1)\<close>, one raw standard
  normal draw, each returning the advanced state, and the state that seeding installs.
\<close>

record 'g mtrand =
  random_sample :: "'g \<Rightarrow> real \<times> 'g"
  standard_normal :: "'g \<Rightarrow> real \<times> 'g"
  init_by_seed :: "nat \<Rightarrow> 'g"

definition np_random_seed :: "'g mtrand \<Rightarrow> nat \<Rightarrow> 'g \<Rightarrow> 'g" where
  "np_random_seed R seed g = init_by_seed R seed"

fun draws :: "('g \<Rightarrow> real \<times> 'g) \<Rightarrow> nat \<Rightarrow> 'g \<Rightarrow> real list \<times> 'g" where
  "draws f 0 g = ([], g)"
| "draws f (Suc k) g =
     (case f g of (x, g1) \<Rightarrow> (case draws f k g1 of (xs, g2) \<Rightarrow> (x # xs, g2)))"

definition np_random_uniform :: "'g mtrand \<Rightarrow> real \<Rightarrow> real \<Rightarrow> nat \<Rightarrow> 'g \<Rightarrow> real list \<times> 'g" where
  "np_random_uniform R low high n g =
     (case draws (random_sample R) n g of
        (us, g') \<Rightarrow> (map (\<lambda>u. low + (high - low) * u) us, g'))"

definition np_random_normal :: "'g mtrand \<Rightarrow> real \<Rightarrow> real \<Rightarrow> nat \<Rightarrow> 'g \<Rightarrow> real list \<times> 'g" where
  "np_random_normal R loc scale n g =
     (case draws (standard_normal R) n g of
        (zs, g') \<Rightarrow> (map (\<lambda>z. loc + scale * z) zs, g'))"

subsection \<open>pandas\<close>

text \<open>
  A data frame built from a dict of columns: the columns in insertion order, each with
  its name. Its row count is the length of its index, here of its first column.
\<close>

type_synonym dataframe = "(string \<times> real list) list"

definition nrows :: "dataframe \<Rightarrow> nat" where
  "nrows df = (case df of [] \<Rightarrow> 0 | c # _ \<Rightarrow> length (snd c))"

definition df_rows :: "dataframe \<Rightarrow> real list list" where
  "df_rows df = map (\<lambda>i. map (\<lambda>c. snd c ! i) df) [0..<nrows df]"

definition df_drop :: "string \<Rightarrow> dataframe \<Rightarrow> exn + dataframe" where
  "df_drop label df =
     (if label \<in> set (map fst df) then Inr (filter (\<lambda>c. fst c \<noteq> label) df)
      else Inl KeyError)"

definition df_getitem :: "dataframe \<Rightarrow> string \<Rightarrow> exn + real list" where
  "df_getitem df label = (case map_of df label of None \<Rightarrow> Inl KeyError | Some c \<Rightarrow> Inr c)"

definition df_take :: "nat list \<Rightarrow> dataframe \<Rightarrow> dataframe" where
  "df_take idx df = map (\<lambda>c. (fst c, map (\<lambda>i. snd c ! i) idx)) df"

definition dict_getitem :: "(string \<rightharpoonup> real) \<Rightarrow> string \<Rightarrow> exn + real" where
  "dict_getitem d k = (case d k of None \<Rightarrow> Inl KeyError | Some v \<Rightarrow> Inr v)"

subsection \<open>scikit-learn\<close>

text \<open>
  A fitted regressor predicts row by row: it is the function from a row of feature
  values, in the column order of the frame, to the predicted target.
\<close>

type_synonym regressor = "real list \<Rightarrow> real"

definition predict :: "regressor \<Rightarrow> dataframe \<Rightarrow> real list" where
  "predict model df = map model (df_rows df)"

text \<open>
  What the library computes and the program only calls: the shuffle that
  \<^verbatim>\<open>random_state=42\<close> gives for a number of samples, the fitting of each regressor
  (which draws from the process-wide generator) and the coefficient of determination.
\<close>

record 'g sklearn =
  permutation_42 :: "nat \<Rightarrow> nat list"
  random_forest_fit :: "dataframe \<Rightarrow> real list \<Rightarrow> 'g \<Rightarrow> regressor \<times> 'g"
  gradient_boosting_fit :: "dataframe \<Rightarrow> real list \<Rightarrow> 'g \<Rightarrow> regressor \<times> 'g"
  r2_score :: "real list \<Rightarrow> real list \<Rightarrow> real"

text \<open>
  \<^verbatim>\<open>train_test_split(X, y, test_size=0.2, random_state=42)\<close>: the test partition has
  \<open>ceil(0.2 * n)\<close> rows, the training partition the rest; an empty training partition
  raises \<^verbatim>\<open>ValueError\<close>. The first \<open>n_test\<close> indices of the shuffle are the test rows,
  the following \<open>n_train\<close> the training rows.
\<close>

definition train_test_split ::
  "'g sklearn \<Rightarrow> dataframe \<Rightarrow> real list
     \<Rightarrow> exn + (dataframe \<times> dataframe \<times> real list \<times> real list)" where
  "train_test_split S X y =
     (let n_samples = nrows X;
          n_test = nat \<lceil>(2 / 10) * real n_samples\<rceil>;
          n_train = n_samples - n_test
      in if n_train = 0 then Inl ValueError
         else (let permutation = permutation_42 S n_samples;
                   ind_test = take n_test permutation;
                   ind_train = take n_train (drop n_test permutation)
               in Inr (df_take ind_train X, df_take ind_test X,
                       map (\<lambda>i. y ! i) ind_train, map (\<lambda>i. y ! i) ind_test)))"

definition score :: "'g sklearn \<Rightarrow> regressor \<Rightarrow> dataframe \<Rightarrow> real list \<Rightarrow> real" where
  "score S model X y = r2_score S y (predict model X)"

subsection \<open>The optimizer object\<close>

record optimizer =
  gas_lift_model :: "regressor option"
  choke_model :: "regressor option"
  gas_lift_data :: "dataframe option"
  choke_data :: "dataframe option"

definition init :: optimizer where
  "init = \<lparr>gas_lift_model = None, choke_model = None, gas_lift_data = None, choke_data = None\<rparr>"

subsection \<open>Synthetic data\<close>

text \<open>
  A negative \<open>n\<close> makes the first \<^verbatim>\<open>np.random.uniform\<close> raise \<^verbatim>\<open>ValueError\<close>. The draws
  are made in the order the source evaluates them.
\<close>

definition generate_gas_lift_data ::
  "'g mtrand \<Rightarrow> int \<Rightarrow> optimizer \<Rightarrow> 'g \<Rightarrow> (exn + dataframe) \<times> optimizer \<times> 'g" where
  "generate_gas_lift_data R n self g0 =
     (if n < 0 then (Inl ValueError, self, g0)
      else
        (case np_random_uniform R 1000 4000 (nat n) g0 of (u1, g1) \<Rightarrow>
        (case np_random_uniform R 100 800 (nat n) g1 of (u2, g2) \<Rightarrow>
        (case np_random_uniform R (5 / 10) 5 (nat n) g2 of (gas_rate, g3) \<Rightarrow>
        (case np_random_uniform R 0 95 (nat n) g3 of (wcut, g4) \<Rightarrow>
        (case np_random_normal R 0 50 (nat n) g4 of (noise, g5) \<Rightarrow>
          (let pdiff = arr_sub u1 u2;
               oil = arr_add (arr_sub (arr_add (scalar_mul (1 / 10) pdiff)
                                               (scalar_mul 50 gas_rate))
                                      (scalar_mul 2 wcut))
                             noise;
               oil' = np_maximum oil 10;
               data = [(''gas_injection_rate'', gas_rate), (''pressure_diff'', pdiff),
                       (''water_cut'', wcut), (''oil_production'', oil')]
           in (Inr data, self\<lparr>gas_lift_data := Some data\<rparr>, g5))))))))"

definition generate_choke_data ::
  "'g mtrand \<Rightarrow> int \<Rightarrow> optimizer \<Rightarrow> 'g \<Rightarrow> (exn + dataframe) \<times> optimizer \<times> 'g" where
  "generate_choke_data R n self g0 =
     (if n < 0 then (Inl ValueError, self, g0)
      else
        (case np_random_uniform R 8 64 (nat n) g0 of (csize, g1) \<Rightarrow>
        (case np_random_uniform R 500 3000 (nat n) g1 of (u1, g2) \<Rightarrow>
        (case np_random_uniform R 50 500 (nat n) g2 of (u2, g3) \<Rightarrow>
        (case np_random_uniform R 100 2000 (nat n) g3 of (glr_v, g4) \<Rightarrow>
        (case np_random_normal R 0 50 (nat n) g4 of (noise, g5) \<Rightarrow>
          (let dp = arr_sub u1 u2;
               flow = arr_add (arr_mul (arr_mul csize (np_sqrt dp))
                                       (scalar_add 1 (scalar_mul (1 / 1000) glr_v)))
                              noise;
               flow' = np_maximum flow 10;
               data = [(''choke_size'', csize), (''delta_p'', dp),
                       (''glr'', glr_v), (''flow_rate'', flow')]
           in (Inr data, self\<lparr>choke_data := Some data\<rparr>, g5))))))))"

subsection \<open>Training\<close>

text \<open>
  A dataset field that is still \<^verbatim>\<open>None\<close> has no \<^verbatim>\<open>drop\<close>: \<^verbatim>\<open>AttributeError\<close>. The
  model field is assigned after the split and the fit, then the score is printed; the
  printed score is the value returned here.
\<close>

definition train_gas_lift_model ::
  "'g sklearn \<Rightarrow> optimizer \<Rightarrow> 'g \<Rightarrow> (exn + real) \<times> optimizer \<times> 'g" where
  "train_gas_lift_model S self g0 =
     (case gas_lift_data self of
        None \<Rightarrow> (Inl AttributeError, self, g0)
      | Some data \<Rightarrow>
        (case df_drop ''oil_production'' data of
           Inl e \<Rightarrow> (Inl e, self, g0)
         | Inr X \<Rightarrow>
           (case df_getitem data ''oil_production'' of
              Inl e \<Rightarrow> (Inl e, self, g0)
            | Inr y \<Rightarrow>
              (case train_test_split S X y of
                 Inl e \<Rightarrow> (Inl e, self, g0)
               | Inr (X_train, X_test, y_train, y_test) \<Rightarrow>
                 (case random_forest_fit S X_train y_train g0 of
                    (model, g1) \<Rightarrow>
                      (Inr (score S model X_test y_test),
                       self\<lparr>gas_lift_model := Some model\<rparr>, g1))))))"

definition train_choke_model ::
  "'g sklearn \<Rightarrow> optimizer \<Rightarrow> 'g \<Rightarrow> (exn + real) \<times> optimizer \<times> 'g" where
  "train_choke_model S self g0 =
     (case choke_data self of
        None \<Rightarrow> (Inl AttributeError, self, g0)
      | Some data \<Rightarrow>
        (case df_drop ''flow_rate'' data of
           Inl e \<Rightarrow> (Inl e, self, g0)
         | Inr X \<Rightarrow>
           (case df_getitem data ''flow_rate'' of
              Inl e \<Rightarrow> (Inl e, self, g0)
            | Inr y \<Rightarrow>
              (case train_test_split S X y of
                 Inl e \<Rightarrow> (Inl e, self, g0)
               | Inr (X_train, X_test, y_train, y_test) \<Rightarrow>
                 (case gradient_boosting_fit S X_train y_train g0 of
                    (model, g1) \<Rightarrow>
                      (Inr (score S model X_test y_test),
                       self\<lparr>choke_model := Some model\<rparr>, g1))))))"

subsection \<open>Optimisation over the grid\<close>

text \<open>
  The grid is built first, then the frame (the two dictionary lookups raise
  \<^verbatim>\<open>KeyError\<close> on a missing key), then the model predicts (a model field that is still
  \<^verbatim>\<open>None\<close> has no \<^verbatim>\<open>predict\<close>: \<^verbatim>\<open>AttributeError\<close>). The result is the tuple the
  source returns, paired with the object as the call leaves it.
\<close>

type_synonym optimum = "real \<times> real \<times> real list \<times> real list"

definition optimize_gas_lift ::
  "optimizer \<Rightarrow> (string \<rightharpoonup> real) \<Rightarrow> real \<times> real \<Rightarrow> (exn + optimum) \<times> optimizer" where
  "optimize_gas_lift self well_conditions gas_range =
     (let gas_rates = np_linspace (fst gas_range) (snd gas_range) 100 in
      case dict_getitem well_conditions ''pressure_diff'' of
        Inl e \<Rightarrow> (Inl e, self)
      | Inr pd \<Rightarrow>
        (case dict_getitem well_conditions ''water_cut'' of
           Inl e \<Rightarrow> (Inl e, self)
         | Inr wc \<Rightarrow>
           (let df = [(''gas_injection_rate'', gas_rates),
                      (''pressure_diff'', replicate 100 pd),
                      (''water_cut'', replicate 100 wc)]
            in case gas_lift_model self of
                 None \<Rightarrow> (Inl AttributeError, self)
               | Some model \<Rightarrow>
                 (let preds = predict model df in
                  case np_argmax preds of
                    Inl e \<Rightarrow> (Inl e, self)
                  | Inr best_idx \<Rightarrow>
                      (Inr (gas_rates ! best_idx, preds ! best_idx, gas_rates, preds),
                       self)))))"

definition optimize_choke ::
  "optimizer \<Rightarrow> (string \<rightharpoonup> real) \<Rightarrow> real \<times> real \<Rightarrow> (exn + optimum) \<times> optimizer" where
  "optimize_choke self flow_conditions choke_range =
     (let choke_sizes = np_linspace (fst choke_range) (snd choke_range) 100 in
      case dict_getitem flow_conditions ''delta_p'' of
        Inl e \<Rightarrow> (Inl e, self)
      | Inr dp \<Rightarrow>
        (case dict_getitem flow_conditions ''glr'' of
           Inl e \<Rightarrow> (Inl e, self)
         | Inr gl \<Rightarrow>
           (let df = [(''choke_size'', choke_sizes),
                      (''delta_p'', replicate 100 dp),
                      (''glr'', replicate 100 gl)]
            in case choke_model self of
                 None \<Rightarrow> (Inl AttributeError, self)
               | Some model \<Rightarrow>
                 (let preds = predict model df in
                  case np_argmax preds of
                    Inl e \<Rightarrow> (Inl e, self)
                  | Inr best_idx \<Rightarrow>
                      (Inr (choke_sizes ! best_idx, preds ! best_idx, choke_sizes, preds),
                       self)))))"

subsection \<open>Example inputs\<close>

text \<open>
  The two contexts of the source's demonstration run, two regressors (the noiseless
  generating formulas, as functions of a feature row) and an object holding them.
\<close>

definition example_well_conditions :: "string \<rightharpoonup> real" where
  "example_well_conditions = [''pressure_diff'' \<mapsto> 2000, ''water_cut'' \<mapsto> 30]"

definition example_flow_conditions :: "string \<rightharpoonup> real" where
  "example_flow_conditions = [''delta_p'' \<mapsto> 1200, ''glr'' \<mapsto> 500]"

definition gas_formula :: regressor where
  "gas_formula row =
     (case row of [g, p, w] \<Rightarrow> (1 / 10) * p + 50 * g - 2 * w | _ \<Rightarrow> 0)"

definition choke_formula :: regressor where
  "choke_formula row =
     (case row of [c, d, g] \<Rightarrow> c * sqrt d * (1 + (1 / 1000) * g) | _ \<Rightarrow> 0)"

definition example_optimizer :: optimizer where
  "example_optimizer =
     init\<lparr>gas_lift_model := Some gas_formula, choke_model := Some choke_formula\<rparr>"

text \<open>
  A generator whose state is a counter: the raw uniform draws cycle through
  \<open>0, 1/4, 1/2, 3/4\<close>, the raw normal draws alternate between \<open>-10\<close> and \<open>1\<close>.
  A library instance that shuffles by reversal and fits the constant regressor.
\<close>

definition counter_rng :: "nat mtrand" where
  "counter_rng =
     \<lparr>random_sample = (\<lambda>g. (real (g mod 4) / 4, g + 1)),
      standard_normal = (\<lambda>g. (if even g then - 10 else 1, g + 1)),
      init_by_seed = (\<lambda>seed. seed)\<rparr>"

definition stub_sklearn :: "nat sklearn" where
  "stub_sklearn =
     \<lparr>permutation_42 = (\<lambda>n. rev [0..<n]),
      random_forest_fit = (\<lambda>X y g. (\<lambda>row. 0, g + 1)),
      gradient_boosting_fit = (\<lambda>X y g. (\<lambda>row. 0, g + 1)),
      r2_score = (\<lambda>y_true y_pred. 0)\<rparr>"

text \<open>A regressor that predicts the same value at every point, so that all grid points tie.\<close>

definition constant_model :: regressor where
  "constant_model row = 0"

definition constant_optimizer :: optimizer where
  "constant_optimizer =
     init\<lparr>gas_lift_model := Some constant_model, choke_model := Some constant_model\<rparr>"

text \<open>An object whose two datasets have a single row each.\<close>

definition one_row_optimizer :: optimizer where
  "one_row_optimizer =
     init\<lparr>gas_lift_data :=
            Some [(''gas_injection_rate'', [3]), (''pressure_diff'', [2000]),
                  (''water_cut'', [30]), (''oil_production'', [290])],
          choke_data :=
            Some [(''choke_size'', [16]), (''delta_p'', [1200]),
                  (''glr'', [500]), (''flow_rate'', [831])]\<rparr>"

section \<open>Properties\<close>

subsection \<open>The argmax, the grid and the prediction of a frame\<close>

lemma argmax_from_inv:
  assumes "length pre = i" "bi < i" "pre ! bi = bv"
    and "\<forall>j<i. pre ! j \<le> bv" "\<forall>j<bi. pre ! j < bv"
  shows "argmax_from xs i bi bv < length (pre @ xs) \<and>
         (\<forall>j<length (pre @ xs). (pre @ xs) ! j \<le> (pre @ xs) ! argmax_from xs i bi bv) \<and>
         (\<forall>j<argmax_from xs i bi bv. (pre @ xs) ! j < (pre @ xs) ! argmax_from xs i bi bv)"
  using assms
proof (induction xs arbitrary: pre i bi bv)
  case Nil
  then show ?case by simp
next
  case (Cons x xs)
  show ?case
  proof (cases "bv < x")
    case True
    have len: "length (pre @ [x]) = Suc i" using Cons.prems(1) by simp
    have a: "i < Suc i" by simp
    have b: "(pre @ [x]) ! i = x" using Cons.prems(1) by (simp add: nth_append)
    have c: "\<forall>j<Suc i. (pre @ [x]) ! j \<le> x"
      using Cons.prems(1,4) True by (auto simp: nth_append less_Suc_eq)
    have d: "\<forall>j<i. (pre @ [x]) ! j < x"
      using Cons.prems(1,4) True by (auto simp: nth_append)
    from Cons.IH[OF len a b c d] True show ?thesis by simp
  next
    case False
    have len: "length (pre @ [x]) = Suc i" using Cons.prems(1) by simp
    have a: "bi < Suc i" using Cons.prems(2) by simp
    have b: "(pre @ [x]) ! bi = bv" using Cons.prems(1,2,3) by (simp add: nth_append)
    have c: "\<forall>j<Suc i. (pre @ [x]) ! j \<le> bv"
      using Cons.prems(1,4) False by (auto simp: nth_append less_Suc_eq)
    have d: "\<forall>j<bi. (pre @ [x]) ! j < bv"
      using Cons.prems(1,2,5) by (auto simp: nth_append)
    from Cons.IH[OF len a b c d] False show ?thesis by simp
  qed
qed

lemma np_argmax_first_max:
  assumes "a \<noteq> []"
  shows "\<exists>r. np_argmax a = Inr r \<and> r < length a \<and> (\<forall>j<length a. a ! j \<le> a ! r)
             \<and> (\<forall>j<r. a ! j < a ! r)"
proof -
  from assms obtain x xs where a: "a = x # xs" by (cases a) auto
  have "argmax_from xs 1 0 x < length ([x] @ xs) \<and>
         (\<forall>j<length ([x] @ xs). ([x] @ xs) ! j \<le> ([x] @ xs) ! argmax_from xs 1 0 x) \<and>
         (\<forall>j<argmax_from xs 1 0 x. ([x] @ xs) ! j < ([x] @ xs) ! argmax_from xs 1 0 x)"
    by (rule argmax_from_inv) simp_all
  then show ?thesis by (simp add: a np_argmax_def)
qed

lemma nth_max_eq_Max:
  fixes a :: "real list"
  assumes "r < length a" "\<forall>j<length a. a ! j \<le> a ! r"
  shows "a ! r = Max (set a)"
proof (rule sym, rule Max_eqI)
  show "finite (set a)" by simp
  show "a ! r \<in> set a" using assms(1) by simp
  fix y assume "y \<in> set a"
  then obtain j where "j < length a" "a ! j = y" by (auto simp: in_set_conv_nth)
  with assms(2) show "y \<le> a ! r" by auto
qed

lemma length_np_linspace: "length (np_linspace a b num) = num"
  by (simp add: np_linspace_def Let_def)

lemma nth_np_linspace:
  assumes "1 < num" "i < num"
  shows "np_linspace a b num ! i = a + real i * ((b - a) / real (num - 1))"
proof (cases "i = num - 1")
  case True
  have "real (num - 1) \<noteq> 0" using assms(1) by simp
  then have "a + real (num - 1) * ((b - a) / real (num - 1)) = b" by simp
  then show ?thesis using assms True by (simp add: np_linspace_def Let_def)
next
  case False
  then show ?thesis using assms by (simp add: np_linspace_def Let_def add.commute)
qed

lemma predict_grid:
  assumes "length grid = n"
  shows "predict model [(c1, grid), (c2, replicate n v2), (c3, replicate n v3)]
         = map (\<lambda>x. model [x, v2, v3]) grid"
  using assms by (auto simp: predict_def df_rows_def nrows_def intro!: nth_equalityI)

lemma np_linspace_mono:
  assumes "a \<le> b" "i \<le> j" "j < 100"
  shows "np_linspace a b 100 ! i \<le> np_linspace a b 100 ! j"
proof -
  have "real i * ((b - a) / 99) \<le> real j * ((b - a) / 99)"
    using assms(1,2) by (intro mult_right_mono) simp_all
  then show ?thesis using assms(2,3) by (simp add: nth_np_linspace)
qed

lemma np_linspace_antimono:
  assumes "b \<le> a" "i \<le> j" "j < 100"
  shows "np_linspace a b 100 ! j \<le> np_linspace a b 100 ! i"
proof -
  have "real i * ((a - b) / 99) \<le> real j * ((a - b) / 99)"
    using assms(1,2) by (intro mult_right_mono) simp_all
  then have "real j * ((b - a) / 99) \<le> real i * ((b - a) / 99)"
    by (simp add: algebra_simps diff_divide_distrib)
  then show ?thesis using assms(2,3) by (simp add: nth_np_linspace)
qed

lemma np_linspace_step:
  assumes "i < 99"
  shows "np_linspace a b 100 ! Suc i - np_linspace a b 100 ! i = (b - a) / 99"
  using assms by (simp add: nth_np_linspace field_simps)

lemma np_linspace_first: "np_linspace a b 100 ! 0 = a"
  by (simp add: nth_np_linspace)

lemma np_linspace_last: "np_linspace a b 100 ! 99 = b"
  by (simp add: nth_np_linspace field_simps)

lemma optimize_gas_lift_run:
  assumes "gas_lift_model self = Some model"
    and "well_conditions ''pressure_diff'' = Some pd"
    and "well_conditions ''water_cut'' = Some wc"
    and "grid = np_linspace (fst gas_range) (snd gas_range) 100"
    and "preds = map (\<lambda>x. model [x, pd, wc]) grid"
  shows "\<exists>i<100. optimize_gas_lift self well_conditions gas_range
                    = (Inr (grid ! i, preds ! i, grid, preds), self)
               \<and> (\<forall>j<100. preds ! j \<le> preds ! i) \<and> (\<forall>j<i. preds ! j < preds ! i)"
proof -
  have len: "length grid = 100" using assms(4) by (simp add: length_np_linspace)
  then have "preds \<noteq> []" and lenp: "length preds = 100" using assms(5) by auto
  from np_argmax_first_max[OF this(1)] obtain r where
    r: "np_argmax preds = Inr r" "r < length preds" "\<forall>j<length preds. preds ! j \<le> preds ! r"
       "\<forall>j<r. preds ! j < preds ! r" by blast
  have p: "predict model [(''gas_injection_rate'', grid), (''pressure_diff'', replicate 100 pd),
                          (''water_cut'', replicate 100 wc)] = preds"
    using predict_grid[OF len] assms(5) by simp
  have "optimize_gas_lift self well_conditions gas_range
          = (Inr (grid ! r, preds ! r, grid, preds), self)"
    using assms(1,2,3) r(1) p
    by (simp add: optimize_gas_lift_def dict_getitem_def Let_def assms(4)[symmetric])
  with r lenp show ?thesis by auto
qed

lemma optimize_choke_run:
  assumes "choke_model self = Some model"
    and "flow_conditions ''delta_p'' = Some dp"
    and "flow_conditions ''glr'' = Some gl"
    and "grid = np_linspace (fst choke_range) (snd choke_range) 100"
    and "preds = map (\<lambda>x. model [x, dp, gl]) grid"
  shows "\<exists>i<100. optimize_choke self flow_conditions choke_range
                    = (Inr (grid ! i, preds ! i, grid, preds), self)
               \<and> (\<forall>j<100. preds ! j \<le> preds ! i) \<and> (\<forall>j<i. preds ! j < preds ! i)"
proof -
  have len: "length grid = 100" using assms(4) by (simp add: length_np_linspace)
  then have "preds \<noteq> []" and lenp: "length preds = 100" using assms(5) by auto
  from np_argmax_first_max[OF this(1)] obtain r where
    r: "np_argmax preds = Inr r" "r < length preds" "\<forall>j<length preds. preds ! j \<le> preds ! r"
       "\<forall>j<r. preds ! j < preds ! r" by blast
  have p: "predict model [(''choke_size'', grid), (''delta_p'', replicate 100 dp),
                          (''glr'', replicate 100 gl)] = preds"
    using predict_grid[OF len] assms(5) by simp
  have "optimize_choke self flow_conditions choke_range
          = (Inr (grid ! r, preds ! r, grid, preds), self)"
    using assms(1,2,3) r(1) p
    by (simp add: optimize_choke_def dict_getitem_def Let_def assms(4)[symmetric])
  with r lenp show ?thesis by auto
qed

lemma optimize_gas_lift_frame: "snd (optimize_gas_lift self well_conditions gas_range) = self"
  by (simp add: optimize_gas_lift_def Let_def split: sum.splits option.splits)

lemma optimize_choke_frame: "snd (optimize_choke self flow_conditions choke_range) = self"
  by (simp add: optimize_choke_def Let_def split: sum.splits option.splits)

subsection \<open>The optimum is the first argmax of the curve\<close>

lemma first_argmax_is_Max:
  fixes preds :: "real list"
  assumes "length preds = 100" "i < 100" "\<forall>j<100. preds ! j \<le> preds ! i"
  shows "preds ! i = Max (set preds)"
  using nth_max_eq_Max[of i preds] assms by simp

lemma first_argmax_lowest_control:
  fixes preds :: "real list"
  assumes "\<forall>j<i. preds ! j < preds ! i" "a \<le> b" "j < 100" "preds ! j = preds ! i"
  shows "np_linspace a b 100 ! i \<le> np_linspace a b 100 ! j"
proof -
  have "i \<le> j"
  proof (rule ccontr)
    assume "\<not> i \<le> j"
    then have "preds ! j < preds ! i" using assms(1) by simp
    with assms(4) show False by simp
  qed
  with assms(2,3) show ?thesis by (simp add: np_linspace_mono)
qed

lemma first_argmax_highest_control:
  fixes preds :: "real list"
  assumes "\<forall>j<i. preds ! j < preds ! i" "b \<le> a" "j < 100" "preds ! j = preds ! i"
  shows "np_linspace a b 100 ! j \<le> np_linspace a b 100 ! i"
proof -
  have "i \<le> j"
  proof (rule ccontr)
    assume "\<not> i \<le> j"
    then have "preds ! j < preds ! i" using assms(1) by simp
    with assms(4) show False by simp
  qed
  with assms(2,3) show ?thesis by (simp add: np_linspace_antimono)
qed

lemma example_fields:
  "gas_lift_model example_optimizer = Some gas_formula"
  "choke_model example_optimizer = Some choke_formula"
  "example_well_conditions ''pressure_diff'' = Some 2000"
  "example_well_conditions ''water_cut'' = Some 30"
  "example_flow_conditions ''delta_p'' = Some 1200"
  "example_flow_conditions ''glr'' = Some 500"
  by (simp_all add: example_optimizer_def init_def example_well_conditions_def
        example_flow_conditions_def)

lemma constant_fields:
  "gas_lift_model constant_optimizer = Some constant_model"
  "choke_model constant_optimizer = Some constant_model"
  by (simp_all add: constant_optimizer_def init_def)

lemma constant_gas_lift_optimum:
  assumes k1: "well_conditions ''pressure_diff'' = Some pd"
    and k2: "well_conditions ''water_cut'' = Some wc"
  shows "optimize_gas_lift constant_optimizer well_conditions (a, b)
           = (Inr (a, 0, np_linspace a b 100, replicate 100 0), constant_optimizer)"
proof -
  define grid where "grid = np_linspace (fst (a, b)) (snd (a, b)) 100"
  define preds where "preds = map (\<lambda>x. constant_model [x, pd, wc]) grid"
  from optimize_gas_lift_run[OF constant_fields(1) k1 k2 grid_def preds_def] obtain i where
    i: "i < 100"
       "optimize_gas_lift constant_optimizer well_conditions (a, b)
          = (Inr (grid ! i, preds ! i, grid, preds), constant_optimizer)"
       "\<forall>j<i. preds ! j < preds ! i"
    by blast
  have g: "grid = np_linspace a b 100" by (simp add: grid_def)
  have lg: "length grid = 100" by (simp add: g length_np_linspace)
  have p: "preds = replicate 100 0"
    using lg by (simp add: preds_def constant_model_def map_replicate_const)
  have "i = 0"
  proof (rule ccontr)
    assume "i \<noteq> 0"
    then have "preds ! 0 < preds ! i" using i(3) by simp
    then show False using i(1) by (simp add: p)
  qed
  with i(1,2) show ?thesis by (simp add: p g np_linspace_first)
qed

lemma constant_choke_optimum:
  assumes k1: "flow_conditions ''delta_p'' = Some dp"
    and k2: "flow_conditions ''glr'' = Some gl"
  shows "optimize_choke constant_optimizer flow_conditions (a, b)
           = (Inr (a, 0, np_linspace a b 100, replicate 100 0), constant_optimizer)"
proof -
  define grid where "grid = np_linspace (fst (a, b)) (snd (a, b)) 100"
  define preds where "preds = map (\<lambda>x. constant_model [x, dp, gl]) grid"
  from optimize_choke_run[OF constant_fields(2) k1 k2 grid_def preds_def] obtain i where
    i: "i < 100"
       "optimize_choke constant_optimizer flow_conditions (a, b)
          = (Inr (grid ! i, preds ! i, grid, preds), constant_optimizer)"
       "\<forall>j<i. preds ! j < preds ! i"
    by blast
  have g: "grid = np_linspace a b 100" by (simp add: grid_def)
  have lg: "length grid = 100" by (simp add: g length_np_linspace)
  have p: "preds = replicate 100 0"
    using lg by (simp add: preds_def constant_model_def map_replicate_const)
  have "i = 0"
  proof (rule ccontr)
    assume "i \<noteq> 0"
    then have "preds ! 0 < preds ! i" using i(3) by simp
    then show False using i(1) by (simp add: p)
  qed
  with i(1,2) show ?thesis by (simp add: p g np_linspace_first)
qed

text \<open>
  With the constant regressor every grid point ties. On the descending interval
  \<open>(1, 0)\<close> the optimisation returns the first grid point, whose control value is \<open>1\<close>,
  although the tied grid point at index 99 has the lower control value \<open>0\<close>.
\<close>

theorem descending_tie_returns_highest_control:
  "fst (optimize_gas_lift constant_optimizer example_well_conditions (1, 0))
     = Inr (1, 0, np_linspace 1 0 100, replicate 100 0)
   \<and> replicate 100 (0 :: real) ! 99 = 0
   \<and> np_linspace 1 0 100 ! 99 = 0
   \<and> np_linspace 1 0 100 ! 99 < 1"
  by (simp add: constant_gas_lift_optimum[OF example_fields(3,4)] np_linspace_last)

text \<open>
  Claim C1, amended. On a trained model and a context holding the two fixed features,
  each optimisation returns the argmax of the curve it returns: the returned prediction
  is the maximum of the returned predictions, the returned control value is the grid
  point at the same index, and every earlier prediction is strictly smaller, so that
  among exact ties the first grid index is the one returned. That is the lowest tied
  control value when \<open>low \<le> high\<close> and the highest tied control value when
  \<open>low \<ge> high\<close>.
\<close>

theorem optimize_returns_first_argmax:
  "(gas_lift_model self = Some model \<longrightarrow>
    well_conditions ''pressure_diff'' = Some pd \<longrightarrow>
    well_conditions ''water_cut'' = Some wc \<longrightarrow>
      (\<exists>best_x best_y grid preds i.
          optimize_gas_lift self well_conditions gas_range
            = (Inr (best_x, best_y, grid, preds), self)
        \<and> length grid = 100 \<and> length preds = 100 \<and> i < 100
        \<and> best_y = Max (set preds) \<and> best_y = preds ! i \<and> best_x = grid ! i
        \<and> (\<forall>j<i. preds ! j < best_y)
        \<and> (fst gas_range \<le> snd gas_range \<longrightarrow>
             (\<forall>j<100. preds ! j = best_y \<longrightarrow> best_x \<le> grid ! j))
        \<and> (snd gas_range \<le> fst gas_range \<longrightarrow>
             (\<forall>j<100. preds ! j = best_y \<longrightarrow> grid ! j \<le> best_x))))
   \<and> (choke_model self = Some model' \<longrightarrow>
      flow_conditions ''delta_p'' = Some dp \<longrightarrow>
      flow_conditions ''glr'' = Some gl \<longrightarrow>
      (\<exists>best_x best_y grid preds i.
          optimize_choke self flow_conditions choke_range
            = (Inr (best_x, best_y, grid, preds), self)
        \<and> length grid = 100 \<and> length preds = 100 \<and> i < 100
        \<and> best_y = Max (set preds) \<and> best_y = preds ! i \<and> best_x = grid ! i
        \<and> (\<forall>j<i. preds ! j < best_y)
        \<and> (fst choke_range \<le> snd choke_range \<longrightarrow>
             (\<forall>j<100. preds ! j = best_y \<longrightarrow> best_x \<le> grid ! j))
        \<and> (snd choke_range \<le> fst choke_range \<longrightarrow>
             (\<forall>j<100. preds ! j = best_y \<longrightarrow> grid ! j \<le> best_x))))"
proof (intro conjI impI)
  assume m: "gas_lift_model self = Some model"
    and k1: "well_conditions ''pressure_diff'' = Some pd"
    and k2: "well_conditions ''water_cut'' = Some wc"
  define grid where "grid = np_linspace (fst gas_range) (snd gas_range) 100"
  define preds where "preds = map (\<lambda>x. model [x, pd, wc]) grid"
  from optimize_gas_lift_run[OF m k1 k2 grid_def preds_def] obtain i where
    i: "i < 100"
       "optimize_gas_lift self well_conditions gas_range
          = (Inr (grid ! i, preds ! i, grid, preds), self)"
       "\<forall>j<100. preds ! j \<le> preds ! i" "\<forall>j<i. preds ! j < preds ! i"
    by blast
  have lg: "length grid = 100" by (simp add: grid_def length_np_linspace)
  have lp: "length preds = 100" by (simp add: preds_def lg)
  have mx: "preds ! i = Max (set preds)" by (rule first_argmax_is_Max[OF lp i(1) i(3)])
  have low: "fst gas_range \<le> snd gas_range \<longrightarrow>
             (\<forall>j<100. preds ! j = preds ! i \<longrightarrow> grid ! i \<le> grid ! j)"
    using first_argmax_lowest_control[OF i(4)] by (simp add: grid_def)
  have high: "snd gas_range \<le> fst gas_range \<longrightarrow>
             (\<forall>j<100. preds ! j = preds ! i \<longrightarrow> grid ! j \<le> grid ! i)"
    using first_argmax_highest_control[OF i(4)] by (simp add: grid_def)
  from i(1,2,4) lg lp mx low high
  show "\<exists>best_x best_y grid preds i.
          optimize_gas_lift self well_conditions gas_range
            = (Inr (best_x, best_y, grid, preds), self)
        \<and> length grid = 100 \<and> length preds = 100 \<and> i < 100
        \<and> best_y = Max (set preds) \<and> best_y = preds ! i \<and> best_x = grid ! i
        \<and> (\<forall>j<i. preds ! j < best_y)
        \<and> (fst gas_range \<le> snd gas_range \<longrightarrow>
             (\<forall>j<100. preds ! j = best_y \<longrightarrow> best_x \<le> grid ! j))
        \<and> (snd gas_range \<le> fst gas_range \<longrightarrow>
             (\<forall>j<100. preds ! j = best_y \<longrightarrow> grid ! j \<le> best_x))"
    by blast
next
  assume m: "choke_model self = Some model'"
    and k1: "flow_conditions ''delta_p'' = Some dp"
    and k2: "flow_conditions ''glr'' = Some gl"
  define grid where "grid = np_linspace (fst choke_range) (snd choke_range) 100"
  define preds where "preds = map (\<lambda>x. model' [x, dp, gl]) grid"
  from optimize_choke_run[OF m k1 k2 grid_def preds_def] obtain i where
    i: "i < 100"
       "optimize_choke self flow_conditions choke_range
          = (Inr (grid ! i, preds ! i, grid, preds), self)"
       "\<forall>j<100. preds ! j \<le> preds ! i" "\<forall>j<i. preds ! j < preds ! i"
    by blast
  have lg: "length grid = 100" by (simp add: grid_def length_np_linspace)
  have lp: "length preds = 100" by (simp add: preds_def lg)
  have mx: "preds ! i = Max (set preds)" by (rule first_argmax_is_Max[OF lp i(1) i(3)])
  have low: "fst choke_range \<le> snd choke_range \<longrightarrow>
             (\<forall>j<100. preds ! j = preds ! i \<longrightarrow> grid ! i \<le> grid ! j)"
    using first_argmax_lowest_control[OF i(4)] by (simp add: grid_def)
  have high: "snd choke_range \<le> fst choke_range \<longrightarrow>
             (\<forall>j<100. preds ! j = preds ! i \<longrightarrow> grid ! j \<le> grid ! i)"
    using first_argmax_highest_control[OF i(4)] by (simp add: grid_def)
  from i(1,2,4) lg lp mx low high
  show "\<exists>best_x best_y grid preds i.
          optimize_choke self flow_conditions choke_range
            = (Inr (best_x, best_y, grid, preds), self)
        \<and> length grid = 100 \<and> length preds = 100 \<and> i < 100
        \<and> best_y = Max (set preds) \<and> best_y = preds ! i \<and> best_x = grid ! i
        \<and> (\<forall>j<i. preds ! j < best_y)
        \<and> (fst choke_range \<le> snd choke_range \<longrightarrow>
             (\<forall>j<100. preds ! j = best_y \<longrightarrow> best_x \<le> grid ! j))
        \<and> (snd choke_range \<le> fst choke_range \<longrightarrow>
             (\<forall>j<100. preds ! j = best_y \<longrightarrow> grid ! j \<le> best_x))"
    by blast
qed

theorem optimize_returns_first_argmax_witness:
  "gas_lift_model constant_optimizer = Some constant_model
   \<and> example_well_conditions ''pressure_diff'' = Some 2000
   \<and> example_well_conditions ''water_cut'' = Some 30
   \<and> (1 / 2 :: real) \<le> 5
   \<and> (\<exists>best_x best_y grid preds i.
          optimize_gas_lift constant_optimizer example_well_conditions (1 / 2, 5)
            = (Inr (best_x, best_y, grid, preds), constant_optimizer)
        \<and> i < 100 \<and> best_y = Max (set preds) \<and> best_y = preds ! i \<and> best_x = grid ! i
        \<and> (\<forall>j<i. preds ! j < best_y)
        \<and> (\<forall>j<100. preds ! j = best_y \<longrightarrow> best_x \<le> grid ! j))
   \<and> fst (optimize_gas_lift constant_optimizer example_well_conditions (1 / 2, 5))
       = Inr (1 / 2, 0, np_linspace (1 / 2) 5 100, replicate 100 0)
   \<and> choke_model constant_optimizer = Some constant_model
   \<and> example_flow_conditions ''delta_p'' = Some 1200
   \<and> example_flow_conditions ''glr'' = Some 500
   \<and> (8 :: real) \<le> 64
   \<and> (\<exists>best_x best_y grid preds i.
          optimize_choke constant_optimizer example_flow_conditions (64, 8)
            = (Inr (best_x, best_y, grid, preds), constant_optimizer)
        \<and> i < 100 \<and> best_y = Max (set preds) \<and> best_y = preds ! i \<and> best_x = grid ! i
        \<and> (\<forall>j<i. preds ! j < best_y)
        \<and> (\<forall>j<100. preds ! j = best_y \<longrightarrow> grid ! j \<le> best_x))
   \<and> fst (optimize_choke constant_optimizer example_flow_conditions (64, 8))
       = Inr (64, 0, np_linspace 64 8 100, replicate 100 0)"
proof -
  note t = optimize_returns_first_argmax[of constant_optimizer constant_model
          example_well_conditions 2000 30 "(1 / 2, 5)" constant_model
          example_flow_conditions 1200 500 "(64, 8)"]
  have g: "fst (optimize_gas_lift constant_optimizer example_well_conditions (1 / 2, 5))
       = Inr (1 / 2, 0, np_linspace (1 / 2) 5 100, replicate 100 0)"
    by (simp add: constant_gas_lift_optimum[OF example_fields(3,4)])
  have c: "fst (optimize_choke constant_optimizer example_flow_conditions (64, 8))
       = Inr (64, 0, np_linspace 64 8 100, replicate 100 0)"
    by (simp add: constant_choke_optimum[OF example_fields(5,6)])
  from t g c show ?thesis
    by (simp add: constant_fields example_fields) blast
qed

subsection \<open>The shape of the grid\<close>

text \<open>
  Claim C2. For every interval \<open>(a, b)\<close> with \<open>a < b\<close>, on a trained model and a context
  holding the two fixed features, each optimisation returns a curve of exactly 100 grid
  points and 100 predictions; the first grid point is \<open>a\<close>, the last is \<open>b\<close>, and any
  two consecutive grid points differ by the same step \<open>(b - a) / 99\<close>.
\<close>

theorem optimize_grid_shape:
  "(a < b \<longrightarrow> gas_lift_model self = Some model \<longrightarrow>
    well_conditions ''pressure_diff'' = Some pd \<longrightarrow>
    well_conditions ''water_cut'' = Some wc \<longrightarrow>
      (\<exists>best_x best_y grid preds.
          optimize_gas_lift self well_conditions (a, b)
            = (Inr (best_x, best_y, grid, preds), self)
        \<and> length grid = 100 \<and> length preds = 100
        \<and> grid ! 0 = a \<and> grid ! 99 = b
        \<and> (\<forall>i<99. grid ! Suc i - grid ! i = (b - a) / 99)))
   \<and> (a < b \<longrightarrow> choke_model self = Some model' \<longrightarrow>
      flow_conditions ''delta_p'' = Some dp \<longrightarrow>
      flow_conditions ''glr'' = Some gl \<longrightarrow>
      (\<exists>best_x best_y grid preds.
          optimize_choke self flow_conditions (a, b)
            = (Inr (best_x, best_y, grid, preds), self)
        \<and> length grid = 100 \<and> length preds = 100
        \<and> grid ! 0 = a \<and> grid ! 99 = b
        \<and> (\<forall>i<99. grid ! Suc i - grid ! i = (b - a) / 99)))"
proof (intro conjI impI)
  assume m: "gas_lift_model self = Some model"
    and k1: "well_conditions ''pressure_diff'' = Some pd"
    and k2: "well_conditions ''water_cut'' = Some wc"
  define grid where "grid = np_linspace (fst (a, b)) (snd (a, b)) 100"
  define preds where "preds = map (\<lambda>x. model [x, pd, wc]) grid"
  from optimize_gas_lift_run[OF m k1 k2 grid_def preds_def] obtain i where
    i: "optimize_gas_lift self well_conditions (a, b)
          = (Inr (grid ! i, preds ! i, grid, preds), self)"
    by blast
  have g: "grid = np_linspace a b 100" by (simp add: grid_def)
  have lg: "length grid = 100" by (simp add: g length_np_linspace)
  have lp: "length preds = 100" by (simp add: preds_def lg)
  have f: "grid ! 0 = a" by (simp add: g np_linspace_first)
  have l: "grid ! 99 = b" by (simp add: g np_linspace_last)
  have s: "\<forall>i<99. grid ! Suc i - grid ! i = (b - a) / 99"
    by (simp add: g np_linspace_step)
  from i lg lp f l s
  show "\<exists>best_x best_y grid preds.
          optimize_gas_lift self well_conditions (a, b)
            = (Inr (best_x, best_y, grid, preds), self)
        \<and> length grid = 100 \<and> length preds = 100
        \<and> grid ! 0 = a \<and> grid ! 99 = b
        \<and> (\<forall>i<99. grid ! Suc i - grid ! i = (b - a) / 99)"
    by blast
next
  assume m: "choke_model self = Some model'"
    and k1: "flow_conditions ''delta_p'' = Some dp"
    and k2: "flow_conditions ''glr'' = Some gl"
  define grid where "grid = np_linspace (fst (a, b)) (snd (a, b)) 100"
  define preds where "preds = map (\<lambda>x. model' [x, dp, gl]) grid"
  from optimize_choke_run[OF m k1 k2 grid_def preds_def] obtain i where
    i: "optimize_choke self flow_conditions (a, b)
          = (Inr (grid ! i, preds ! i, grid, preds), self)"
    by blast
  have g: "grid = np_linspace a b 100" by (simp add: grid_def)
  have lg: "length grid = 100" by (simp add: g length_np_linspace)
  have lp: "length preds = 100" by (simp add: preds_def lg)
  have f: "grid ! 0 = a" by (simp add: g np_linspace_first)
  have l: "grid ! 99 = b" by (simp add: g np_linspace_last)
  have s: "\<forall>i<99. grid ! Suc i - grid ! i = (b - a) / 99"
    by (simp add: g np_linspace_step)
  from i lg lp f l s
  show "\<exists>best_x best_y grid preds.
          optimize_choke self flow_conditions (a, b)
            = (Inr (best_x, best_y, grid, preds), self)
        \<and> length grid = 100 \<and> length preds = 100
        \<and> grid ! 0 = a \<and> grid ! 99 = b
        \<and> (\<forall>i<99. grid ! Suc i - grid ! i = (b - a) / 99)"
    by blast
qed

theorem optimize_grid_shape_witness:
  "(1 / 2 :: real) < 5
   \<and> gas_lift_model example_optimizer = Some gas_formula
   \<and> example_well_conditions ''pressure_diff'' = Some 2000
   \<and> example_well_conditions ''water_cut'' = Some 30
   \<and> (\<exists>best_x best_y grid preds.
          optimize_gas_lift example_optimizer example_well_conditions (1 / 2, 5)
            = (Inr (best_x, best_y, grid, preds), example_optimizer)
        \<and> length grid = 100 \<and> length preds = 100
        \<and> grid ! 0 = 1 / 2 \<and> grid ! 99 = 5
        \<and> (\<forall>i<99. grid ! Suc i - grid ! i = 1 / 22))
   \<and> choke_model example_optimizer = Some choke_formula
   \<and> example_flow_conditions ''delta_p'' = Some 1200
   \<and> example_flow_conditions ''glr'' = Some 500
   \<and> (\<exists>best_x best_y grid preds.
          optimize_choke example_optimizer example_flow_conditions (1 / 2, 5)
            = (Inr (best_x, best_y, grid, preds), example_optimizer)
        \<and> length grid = 100 \<and> length preds = 100
        \<and> grid ! 0 = 1 / 2 \<and> grid ! 99 = 5
        \<and> (\<forall>i<99. grid ! Suc i - grid ! i = 1 / 22))"
  using optimize_grid_shape[of "1 / 2" 5 example_optimizer gas_formula
          example_well_conditions 2000 30 choke_formula
          example_flow_conditions 1200 500]
  by (simp add: example_fields)

subsection \<open>Optimisation leaves the object as it was\<close>

text \<open>
  Claim C8. Each optimisation returns the optimizer object unchanged (both models and
  both datasets), whatever its outcome, so its only output is its return value; the
  gas lift and the choke optimisation give the same results and the same final object
  in either order.
\<close>

theorem optimize_leaves_object_unchanged:
  "snd (optimize_gas_lift self well_conditions gas_range) = self
   \<and> snd (optimize_choke self flow_conditions choke_range) = self
   \<and> fst (optimize_choke (snd (optimize_gas_lift self well_conditions gas_range))
             flow_conditions choke_range)
       = fst (optimize_choke self flow_conditions choke_range)
   \<and> fst (optimize_gas_lift (snd (optimize_choke self flow_conditions choke_range))
             well_conditions gas_range)
       = fst (optimize_gas_lift self well_conditions gas_range)
   \<and> snd (optimize_choke (snd (optimize_gas_lift self well_conditions gas_range))
             flow_conditions choke_range)
       = snd (optimize_gas_lift (snd (optimize_choke self flow_conditions choke_range))
             well_conditions gas_range)"
  by (simp add: optimize_gas_lift_frame optimize_choke_frame)

subsection \<open>What an optimisation reads of its context\<close>

lemma optimize_gas_lift_reads:
  assumes "wc1 ''pressure_diff'' = wc2 ''pressure_diff''"
    and "wc1 ''water_cut'' = wc2 ''water_cut''"
  shows "optimize_gas_lift self wc1 gas_range = optimize_gas_lift self wc2 gas_range"
proof -
  have "dict_getitem wc1 ''pressure_diff'' = dict_getitem wc2 ''pressure_diff''"
    and "dict_getitem wc1 ''water_cut'' = dict_getitem wc2 ''water_cut''"
    using assms by (simp_all add: dict_getitem_def)
  then show ?thesis by (simp add: optimize_gas_lift_def cong: sum.case_cong)
qed

lemma optimize_choke_reads:
  assumes "fc1 ''delta_p'' = fc2 ''delta_p''"
    and "fc1 ''glr'' = fc2 ''glr''"
  shows "optimize_choke self fc1 choke_range = optimize_choke self fc2 choke_range"
proof -
  have "dict_getitem fc1 ''delta_p'' = dict_getitem fc2 ''delta_p''"
    and "dict_getitem fc1 ''glr'' = dict_getitem fc2 ''glr''"
    using assms by (simp_all add: dict_getitem_def)
  then show ?thesis by (simp add: optimize_choke_def cong: sum.case_cong)
qed

text \<open>
  Claim C9. An optimisation reads only the two named fields of its context
  (\<open>pressure_diff\<close> and \<open>water_cut\<close> for gas lift, \<open>delta_p\<close> and \<open>glr\<close> for choke): two
  contexts that agree on them give the same outcome, whatever other keys either
  carries, the control field included.
\<close>

theorem optimize_reads_only_named_fields:
  "(wc1 ''pressure_diff'' = wc2 ''pressure_diff'' \<longrightarrow>
    wc1 ''water_cut'' = wc2 ''water_cut'' \<longrightarrow>
      optimize_gas_lift self wc1 gas_range = optimize_gas_lift self wc2 gas_range)
   \<and> (fc1 ''delta_p'' = fc2 ''delta_p'' \<longrightarrow>
      fc1 ''glr'' = fc2 ''glr'' \<longrightarrow>
      optimize_choke self fc1 choke_range = optimize_choke self fc2 choke_range)"
  using optimize_gas_lift_reads optimize_choke_reads by blast

theorem optimize_reads_only_named_fields_witness:
  "(example_well_conditions(''gas_injection_rate'' \<mapsto> 3, ''depth'' \<mapsto> 9000)) ''pressure_diff''
     = example_well_conditions ''pressure_diff''
   \<and> (example_well_conditions(''gas_injection_rate'' \<mapsto> 3, ''depth'' \<mapsto> 9000)) ''water_cut''
     = example_well_conditions ''water_cut''
   \<and> optimize_gas_lift example_optimizer
       (example_well_conditions(''gas_injection_rate'' \<mapsto> 3, ''depth'' \<mapsto> 9000)) (1 / 2, 5)
     = optimize_gas_lift example_optimizer example_well_conditions (1 / 2, 5)
   \<and> (example_flow_conditions(''choke_size'' \<mapsto> 16, ''depth'' \<mapsto> 9000)) ''delta_p''
     = example_flow_conditions ''delta_p''
   \<and> (example_flow_conditions(''choke_size'' \<mapsto> 16, ''depth'' \<mapsto> 9000)) ''glr''
     = example_flow_conditions ''glr''
   \<and> optimize_choke example_optimizer
       (example_flow_conditions(''choke_size'' \<mapsto> 16, ''depth'' \<mapsto> 9000)) (8, 64)
     = optimize_choke example_optimizer example_flow_conditions (8, 64)"
  using optimize_reads_only_named_fields[where
          ?wc1.0 = "example_well_conditions(''gas_injection_rate'' \<mapsto> 3, ''depth'' \<mapsto> 9000)"
          and ?wc2.0 = example_well_conditions
          and ?fc1.0 = "example_flow_conditions(''choke_size'' \<mapsto> 16, ''depth'' \<mapsto> 9000)"
          and ?fc2.0 = example_flow_conditions and self = example_optimizer
          and gas_range = "(1 / 2, 5)" and choke_range = "(8, 64)"]
  by simp

subsection \<open>Training before generating\<close>

text \<open>
  Claim C10. On a freshly constructed optimizer both dataset fields are \<open>None\<close>, so
  each train method fails with an exception (\<open>AttributeError\<close>) and leaves the object
  and the generator as they were.
\<close>

theorem train_before_generate_fails:
  "train_gas_lift_model S init g = (Inl AttributeError, init, g)
   \<and> train_choke_model S init g = (Inl AttributeError, init, g)"
  by (simp add: train_gas_lift_model_def train_choke_model_def init_def)

subsection \<open>Intervals are not validated\<close>

lemma optimize_gas_lift_errors:
  "fst (optimize_gas_lift self well_conditions gas_range) = Inl e \<Longrightarrow>
     e = KeyError \<or> e = AttributeError \<or> e = ValueError"
  by (auto simp: optimize_gas_lift_def dict_getitem_def np_argmax_def Let_def
           split: sum.splits option.splits list.splits)

lemma optimize_choke_errors:
  "fst (optimize_choke self flow_conditions choke_range) = Inl e \<Longrightarrow>
     e = KeyError \<or> e = AttributeError \<or> e = ValueError"
  by (auto simp: optimize_choke_def dict_getitem_def np_argmax_def Let_def
           split: sum.splits option.splits list.splits)

lemma gas_formula_optimum:
  assumes k1: "well_conditions ''pressure_diff'' = Some 2000"
    and k2: "well_conditions ''water_cut'' = Some 30"
  shows "\<exists>grid preds. optimize_gas_lift example_optimizer well_conditions (a, b)
           = (Inr (max a b, 140 + 50 * max a b, grid, preds), example_optimizer)"
proof -
  define grid where "grid = np_linspace (fst (a, b)) (snd (a, b)) 100"
  define preds where "preds = map (\<lambda>x. gas_formula [x, 2000, 30]) grid"
  from optimize_gas_lift_run[OF example_fields(1) k1 k2 grid_def preds_def] obtain i where
    i: "i < 100"
       "optimize_gas_lift example_optimizer well_conditions (a, b)
          = (Inr (grid ! i, preds ! i, grid, preds), example_optimizer)"
       "\<forall>j<100. preds ! j \<le> preds ! i"
    by blast
  have g: "grid = np_linspace a b 100" by (simp add: grid_def)
  have lg: "length grid = 100" by (simp add: g length_np_linspace)
  have p: "preds ! j = 140 + 50 * grid ! j" if "j < 100" for j
    using that lg by (simp add: preds_def gas_formula_def)
  have "grid ! i = max a b"
  proof (cases "a \<le> b")
    case True
    have "preds ! 99 \<le> preds ! i" using i(3) by simp
    then have "grid ! 99 \<le> grid ! i" using p[of 99] p[OF i(1)] by simp
    moreover have "grid ! i \<le> grid ! 99"
      using np_linspace_mono[OF True, of i 99] i(1) by (simp add: g)
    ultimately show ?thesis using True by (simp add: g np_linspace_last)
  next
    case False
    then have ba: "b \<le> a" by simp
    have "preds ! 0 \<le> preds ! i" using i(3) by simp
    then have "grid ! 0 \<le> grid ! i" using p[of 0] p[OF i(1)] by simp
    moreover have "grid ! i \<le> grid ! 0"
      using np_linspace_antimono[OF ba, of 0 i] i(1) by (simp add: g)
    ultimately show ?thesis using ba by (simp add: g np_linspace_first)
  qed
  with i(2) p[OF i(1)] show ?thesis by auto
qed

text \<open>
  An interval with \<open>low > high\<close> is accepted: on \<open>(5, 1/2)\<close> the gas lift optimisation
  of the example object succeeds, with the optimum at the first grid point, \<open>5\<close>, and
  the predicted value \<open>390\<close>.
\<close>

theorem descending_interval_accepted:
  "\<not> isl (fst (optimize_gas_lift example_optimizer example_well_conditions (5, 1 / 2)))
   \<and> fst (optimize_gas_lift example_optimizer example_well_conditions (5, 1 / 2))
       \<noteq> Inl InvalidIntervalError
   \<and> fst (projr (fst (optimize_gas_lift example_optimizer example_well_conditions (5, 1 / 2))))
       = 5
   \<and> fst (snd (projr (fst (optimize_gas_lift example_optimizer example_well_conditions
                              (5, 1 / 2)))))
       = 390"
proof -
  from gas_formula_optimum[OF example_fields(3,4), of 5 "1 / 2"] obtain grid preds where
    "optimize_gas_lift example_optimizer example_well_conditions (5, 1 / 2)
       = (Inr (max 5 (1 / 2), 140 + 50 * max 5 (1 / 2), grid, preds), example_optimizer)"
    by blast
  then show ?thesis by simp
qed

text \<open>
  Claim C3, amended. No optimisation fails with \<open>InvalidIntervalError\<close>, and the
  resolution is the constant 100. With \<open>low \<ge> high\<close>, a trained model and a context
  holding the two fixed features, the optimisation succeeds and returns a curve of 100
  points that starts at \<open>low\<close>, ends at \<open>high\<close> and never ascends.
\<close>

theorem optimize_accepts_any_interval:
  "(b \<le> a \<longrightarrow> gas_lift_model self = Some model \<longrightarrow>
    well_conditions ''pressure_diff'' = Some pd \<longrightarrow>
    well_conditions ''water_cut'' = Some wc \<longrightarrow>
      (\<exists>best_x best_y grid preds.
          optimize_gas_lift self well_conditions (a, b)
            = (Inr (best_x, best_y, grid, preds), self)
        \<and> length grid = 100 \<and> grid ! 0 = a \<and> grid ! 99 = b
        \<and> (\<forall>i<99. grid ! Suc i \<le> grid ! i)))
   \<and> (b \<le> a \<longrightarrow> choke_model self = Some model' \<longrightarrow>
      flow_conditions ''delta_p'' = Some dp \<longrightarrow>
      flow_conditions ''glr'' = Some gl \<longrightarrow>
      (\<exists>best_x best_y grid preds.
          optimize_choke self flow_conditions (a, b)
            = (Inr (best_x, best_y, grid, preds), self)
        \<and> length grid = 100 \<and> grid ! 0 = a \<and> grid ! 99 = b
        \<and> (\<forall>i<99. grid ! Suc i \<le> grid ! i)))
   \<and> fst (optimize_gas_lift self' well_conditions' gas_range) \<noteq> Inl InvalidIntervalError
   \<and> fst (optimize_choke self' flow_conditions' choke_range) \<noteq> Inl InvalidIntervalError"
proof (intro conjI impI)
  assume ba: "b \<le> a" and m: "gas_lift_model self = Some model"
    and k1: "well_conditions ''pressure_diff'' = Some pd"
    and k2: "well_conditions ''water_cut'' = Some wc"
  define grid where "grid = np_linspace (fst (a, b)) (snd (a, b)) 100"
  define preds where "preds = map (\<lambda>x. model [x, pd, wc]) grid"
  from optimize_gas_lift_run[OF m k1 k2 grid_def preds_def] obtain i where
    i: "optimize_gas_lift self well_conditions (a, b)
          = (Inr (grid ! i, preds ! i, grid, preds), self)"
    by blast
  have g: "grid = np_linspace a b 100" by (simp add: grid_def)
  have lg: "length grid = 100" by (simp add: g length_np_linspace)
  have f: "grid ! 0 = a" by (simp add: g np_linspace_first)
  have l: "grid ! 99 = b" by (simp add: g np_linspace_last)
  have s: "\<forall>i<99. grid ! Suc i \<le> grid ! i"
    using np_linspace_antimono[OF ba] by (simp add: g)
  from i lg f l s
  show "\<exists>best_x best_y grid preds.
          optimize_gas_lift self well_conditions (a, b)
            = (Inr (best_x, best_y, grid, preds), self)
        \<and> length grid = 100 \<and> grid ! 0 = a \<and> grid ! 99 = b
        \<and> (\<forall>i<99. grid ! Suc i \<le> grid ! i)"
    by blast
next
  assume ba: "b \<le> a" and m: "choke_model self = Some model'"
    and k1: "flow_conditions ''delta_p'' = Some dp"
    and k2: "flow_conditions ''glr'' = Some gl"
  define grid where "grid = np_linspace (fst (a, b)) (snd (a, b)) 100"
  define preds where "preds = map (\<lambda>x. model' [x, dp, gl]) grid"
  from optimize_choke_run[OF m k1 k2 grid_def preds_def] obtain i where
    i: "optimize_choke self flow_conditions (a, b)
          = (Inr (grid ! i, preds ! i, grid, preds), self)"
    by blast
  have g: "grid = np_linspace a b 100" by (simp add: grid_def)
  have lg: "length grid = 100" by (simp add: g length_np_linspace)
  have f: "grid ! 0 = a" by (simp add: g np_linspace_first)
  have l: "grid ! 99 = b" by (simp add: g np_linspace_last)
  have s: "\<forall>i<99. grid ! Suc i \<le> grid ! i"
    using np_linspace_antimono[OF ba] by (simp add: g)
  from i lg f l s
  show "\<exists>best_x best_y grid preds.
          optimize_choke self flow_conditions (a, b)
            = (Inr (best_x, best_y, grid, preds), self)
        \<and> length grid = 100 \<and> grid ! 0 = a \<and> grid ! 99 = b
        \<and> (\<forall>i<99. grid ! Suc i \<le> grid ! i)"
    by blast
next
  show "fst (optimize_gas_lift self' well_conditions' gas_range) \<noteq> Inl InvalidIntervalError"
    using optimize_gas_lift_errors[of self' well_conditions' gas_range InvalidIntervalError]
    by auto
next
  show "fst (optimize_choke self' flow_conditions' choke_range) \<noteq> Inl InvalidIntervalError"
    using optimize_choke_errors[of self' flow_conditions' choke_range InvalidIntervalError]
    by auto
qed

theorem optimize_accepts_any_interval_witness:
  "(1 / 2 :: real) \<le> 5
   \<and> gas_lift_model example_optimizer = Some gas_formula
   \<and> example_well_conditions ''pressure_diff'' = Some 2000
   \<and> example_well_conditions ''water_cut'' = Some 30
   \<and> (\<exists>best_x best_y grid preds.
          optimize_gas_lift example_optimizer example_well_conditions (5, 1 / 2)
            = (Inr (best_x, best_y, grid, preds), example_optimizer)
        \<and> length grid = 100 \<and> grid ! 0 = 5 \<and> grid ! 99 = 1 / 2
        \<and> (\<forall>i<99. grid ! Suc i \<le> grid ! i))
   \<and> choke_model example_optimizer = Some choke_formula
   \<and> example_flow_conditions ''delta_p'' = Some 1200
   \<and> example_flow_conditions ''glr'' = Some 500
   \<and> (\<exists>best_x best_y grid preds.
          optimize_choke example_optimizer example_flow_conditions (5, 1 / 2)
            = (Inr (best_x, best_y, grid, preds), example_optimizer)
        \<and> length grid = 100 \<and> grid ! 0 = 5 \<and> grid ! 99 = 1 / 2
        \<and> (\<forall>i<99. grid ! Suc i \<le> grid ! i))"
  using optimize_accepts_any_interval[where a = 5 and b = "1 / 2"
          and self = example_optimizer and model = gas_formula
          and well_conditions = example_well_conditions and pd = 2000 and wc = 30
          and model' = choke_formula and flow_conditions = example_flow_conditions
          and dp = 1200 and gl = 500]
  by (simp add: example_fields)

subsection \<open>Contexts are not validated against a schema\<close>

lemma optimize_gas_lift_missing:
  assumes "well_conditions ''pressure_diff'' = None \<or> well_conditions ''water_cut'' = None"
  shows "optimize_gas_lift self well_conditions gas_range = (Inl KeyError, self)"
  using assms
  by (auto simp: optimize_gas_lift_def dict_getitem_def Let_def split: option.splits)

lemma optimize_choke_missing:
  assumes "flow_conditions ''delta_p'' = None \<or> flow_conditions ''glr'' = None"
  shows "optimize_choke self flow_conditions choke_range = (Inl KeyError, self)"
  using assms
  by (auto simp: optimize_choke_def dict_getitem_def Let_def split: option.splits)

text \<open>
  A context that also carries the control field is accepted: the gas lift optimisation
  of the example object succeeds on it, with the optimum at \<open>5\<close>. A context without
  \<open>pressure_diff\<close> fails with \<open>KeyError\<close>.
\<close>

theorem control_field_in_context_accepted:
  "\<not> isl (fst (optimize_gas_lift example_optimizer
                 (example_well_conditions(''gas_injection_rate'' \<mapsto> 3)) (1 / 2, 5)))
   \<and> fst (optimize_gas_lift example_optimizer
            (example_well_conditions(''gas_injection_rate'' \<mapsto> 3)) (1 / 2, 5))
       \<noteq> Inl SchemaMismatchError
   \<and> fst (projr (fst (optimize_gas_lift example_optimizer
                       (example_well_conditions(''gas_injection_rate'' \<mapsto> 3)) (1 / 2, 5))))
       = 5
   \<and> fst (optimize_gas_lift example_optimizer [''water_cut'' \<mapsto> 30] (1 / 2, 5))
       = Inl KeyError"
proof -
  have k: "(example_well_conditions(''gas_injection_rate'' \<mapsto> 3)) ''pressure_diff'' = Some 2000"
    "(example_well_conditions(''gas_injection_rate'' \<mapsto> 3)) ''water_cut'' = Some 30"
    by (simp_all add: example_fields)
  from gas_formula_optimum[OF k, of "1 / 2" 5] obtain grid preds where
    "optimize_gas_lift example_optimizer
        (example_well_conditions(''gas_injection_rate'' \<mapsto> 3)) (1 / 2, 5)
       = (Inr (max (1 / 2) 5, 140 + 50 * max (1 / 2) 5, grid, preds), example_optimizer)"
    by blast
  moreover have "fst (optimize_gas_lift example_optimizer [''water_cut'' \<mapsto> 30] (1 / 2, 5))
       = Inl KeyError"
    by (simp add: optimize_gas_lift_missing)
  ultimately show ?thesis by simp
qed

text \<open>
  Claim C4, amended. An optimisation whose context lacks one of the two fixed features
  fails with \<open>KeyError\<close> and leaves the object unchanged. A context that carries the
  control field is not rejected: the key is ignored and the outcome is that of the
  context without it. No optimisation fails with \<open>SchemaMismatchError\<close>.
\<close>

theorem optimize_context_errors:
  "((well_conditions ''pressure_diff'' = None \<or> well_conditions ''water_cut'' = None) \<longrightarrow>
      optimize_gas_lift self well_conditions gas_range = (Inl KeyError, self))
   \<and> ((flow_conditions ''delta_p'' = None \<or> flow_conditions ''glr'' = None) \<longrightarrow>
      optimize_choke self flow_conditions choke_range = (Inl KeyError, self))
   \<and> optimize_gas_lift self (well_conditions(''gas_injection_rate'' \<mapsto> v)) gas_range
       = optimize_gas_lift self well_conditions gas_range
   \<and> optimize_choke self (flow_conditions(''choke_size'' \<mapsto> v')) choke_range
       = optimize_choke self flow_conditions choke_range
   \<and> fst (optimize_gas_lift self well_conditions gas_range) \<noteq> Inl SchemaMismatchError
   \<and> fst (optimize_choke self flow_conditions choke_range) \<noteq> Inl SchemaMismatchError"
proof (intro conjI impI)
  assume "well_conditions ''pressure_diff'' = None \<or> well_conditions ''water_cut'' = None"
  then show "optimize_gas_lift self well_conditions gas_range = (Inl KeyError, self)"
    by (rule optimize_gas_lift_missing)
next
  assume "flow_conditions ''delta_p'' = None \<or> flow_conditions ''glr'' = None"
  then show "optimize_choke self flow_conditions choke_range = (Inl KeyError, self)"
    by (rule optimize_choke_missing)
next
  show "optimize_gas_lift self (well_conditions(''gas_injection_rate'' \<mapsto> v)) gas_range
          = optimize_gas_lift self well_conditions gas_range"
    by (rule optimize_gas_lift_reads) simp_all
next
  show "optimize_choke self (flow_conditions(''choke_size'' \<mapsto> v')) choke_range
          = optimize_choke self flow_conditions choke_range"
    by (rule optimize_choke_reads) simp_all
next
  show "fst (optimize_gas_lift self well_conditions gas_range) \<noteq> Inl SchemaMismatchError"
    using optimize_gas_lift_errors[of self well_conditions gas_range SchemaMismatchError]
    by auto
next
  show "fst (optimize_choke self flow_conditions choke_range) \<noteq> Inl SchemaMismatchError"
    using optimize_choke_errors[of self flow_conditions choke_range SchemaMismatchError]
    by auto
qed

theorem optimize_context_errors_witness:
  "([''water_cut'' \<mapsto> 30 :: real] ''pressure_diff'' = None
      \<or> [''water_cut'' \<mapsto> 30 :: real] ''water_cut'' = None)
   \<and> optimize_gas_lift example_optimizer [''water_cut'' \<mapsto> 30] (1 / 2, 5)
       = (Inl KeyError, example_optimizer)
   \<and> ([''delta_p'' \<mapsto> 1200 :: real] ''delta_p'' = None
      \<or> [''delta_p'' \<mapsto> 1200 :: real] ''glr'' = None)
   \<and> optimize_choke example_optimizer [''delta_p'' \<mapsto> 1200] (8, 64)
       = (Inl KeyError, example_optimizer)"
  using optimize_context_errors[where well_conditions = "[''water_cut'' \<mapsto> 30]"
          and flow_conditions = "[''delta_p'' \<mapsto> 1200]" and self = example_optimizer
          and gas_range = "(1 / 2, 5)" and choke_range = "(8, 64)"]
  by simp

subsection \<open>The floor of the generated target\<close>

lemma length_draws: "draws f n g = (xs, g') \<Longrightarrow> length xs = n"
proof (induction n arbitrary: g xs g')
  case 0
  then show ?case by simp
next
  case (Suc n)
  obtain x g1 where a: "f g = (x, g1)" by fastforce
  obtain ys g2 where b: "draws f n g1 = (ys, g2)" by fastforce
  from Suc.prems a b have "xs = x # ys" by simp
  with Suc.IH[OF b] show ?case by simp
qed

lemma length_np_random_uniform:
  "np_random_uniform R low high n g = (xs, g') \<Longrightarrow> length xs = n"
  by (auto simp: np_random_uniform_def split: prod.splits dest: length_draws)

lemma length_np_random_normal:
  "np_random_normal R loc scale n g = (xs, g') \<Longrightarrow> length xs = n"
  by (auto simp: np_random_normal_def split: prod.splits dest: length_draws)

lemma np_maximum_floor: "\<forall>v\<in>set (np_maximum a c). c \<le> v"
  by (simp add: np_maximum_def)

lemma length_np_maximum: "length (np_maximum a c) = length a"
  by (simp add: np_maximum_def)

lemma generate_gas_lift_data_frame:
  assumes "0 \<le> n"
  shows "\<exists>gas pdiff wcut oil.
           fst (generate_gas_lift_data R n self g)
             = Inr [(''gas_injection_rate'', gas), (''pressure_diff'', pdiff),
                    (''water_cut'', wcut), (''oil_production'', oil)]
         \<and> length gas = nat n \<and> length oil = nat n \<and> (\<forall>v\<in>set oil. 10 \<le> v)"
proof -
  obtain u1 g1 where a: "np_random_uniform R 1000 4000 (nat n) g = (u1, g1)" by fastforce
  obtain u2 g2 where b: "np_random_uniform R 100 800 (nat n) g1 = (u2, g2)" by fastforce
  obtain gas g3 where c: "np_random_uniform R (5 / 10) 5 (nat n) g2 = (gas, g3)" by fastforce
  obtain wcut g4 where d: "np_random_uniform R 0 95 (nat n) g3 = (wcut, g4)" by fastforce
  obtain noise g5 where e: "np_random_normal R 0 50 (nat n) g4 = (noise, g5)" by fastforce
  note l = length_np_random_uniform[OF a] length_np_random_uniform[OF b]
    length_np_random_uniform[OF c] length_np_random_uniform[OF d]
    length_np_random_normal[OF e]
  define oil where "oil = np_maximum
      (arr_add (arr_sub (arr_add (scalar_mul (1 / 10) (arr_sub u1 u2)) (scalar_mul 50 gas))
                        (scalar_mul 2 wcut)) noise) 10"
  have r: "fst (generate_gas_lift_data R n self g)
             = Inr [(''gas_injection_rate'', gas), (''pressure_diff'', arr_sub u1 u2),
                    (''water_cut'', wcut), (''oil_production'', oil)]"
    using assms a b c d e by (simp add: generate_gas_lift_data_def Let_def oil_def)
  have lo: "length oil = nat n"
    using l by (simp add: oil_def length_np_maximum arr_add_def arr_sub_def scalar_mul_def)
  have fl: "\<forall>v\<in>set oil. 10 \<le> v" unfolding oil_def by (rule np_maximum_floor)
  from r l(3) lo fl show ?thesis by blast
qed

lemma generate_choke_data_frame:
  assumes "0 \<le> n"
  shows "\<exists>csize dp glr_v flow.
           fst (generate_choke_data R n self g)
             = Inr [(''choke_size'', csize), (''delta_p'', dp),
                    (''glr'', glr_v), (''flow_rate'', flow)]
         \<and> length csize = nat n \<and> length flow = nat n \<and> (\<forall>v\<in>set flow. 10 \<le> v)"
proof -
  obtain csize g1 where a: "np_random_uniform R 8 64 (nat n) g = (csize, g1)" by fastforce
  obtain u1 g2 where b: "np_random_uniform R 500 3000 (nat n) g1 = (u1, g2)" by fastforce
  obtain u2 g3 where c: "np_random_uniform R 50 500 (nat n) g2 = (u2, g3)" by fastforce
  obtain glr_v g4 where d: "np_random_uniform R 100 2000 (nat n) g3 = (glr_v, g4)" by fastforce
  obtain noise g5 where e: "np_random_normal R 0 50 (nat n) g4 = (noise, g5)" by fastforce
  note l = length_np_random_uniform[OF a] length_np_random_uniform[OF b]
    length_np_random_uniform[OF c] length_np_random_uniform[OF d]
    length_np_random_normal[OF e]
  define flow where "flow = np_maximum
      (arr_add (arr_mul (arr_mul csize (np_sqrt (arr_sub u1 u2)))
                        (scalar_add 1 (scalar_mul (1 / 1000) glr_v))) noise) 10"
  have r: "fst (generate_choke_data R n self g)
             = Inr [(''choke_size'', csize), (''delta_p'', arr_sub u1 u2),
                    (''glr'', glr_v), (''flow_rate'', flow)]"
    using assms a b c d e by (simp add: generate_choke_data_def Let_def flow_def)
  have lo: "length flow = nat n"
    using l by (simp add: flow_def length_np_maximum arr_add_def arr_sub_def arr_mul_def
                  scalar_mul_def scalar_add_def np_sqrt_def)
  have fl: "\<forall>v\<in>set flow. 10 \<le> v" unfolding flow_def by (rule np_maximum_floor)
  from r l(1) lo fl show ?thesis by blast
qed

text \<open>
  Claim C7. For every \<open>n \<ge> 0\<close>, each generator returns a frame of \<open>n\<close> rows whose
  target column (\<open>oil_production\<close>, \<open>flow_rate\<close>) is at least 10 in every row, whatever
  the generator draws, since the raw formula plus noise is clamped from below by
  \<^verbatim>\<open>np.maximum(_, 10)\<close>.
\<close>

theorem generated_target_at_least_floor:
  "(0 \<le> n \<longrightarrow>
      (\<exists>data oil. fst (generate_gas_lift_data R n self g) = Inr data
         \<and> df_getitem data ''oil_production'' = Inr oil
         \<and> nrows data = nat n \<and> length oil = nat n
         \<and> (\<forall>i<nat n. 10 \<le> oil ! i)))
   \<and> (0 \<le> n \<longrightarrow>
      (\<exists>data flow. fst (generate_choke_data R n self g) = Inr data
         \<and> df_getitem data ''flow_rate'' = Inr flow
         \<and> nrows data = nat n \<and> length flow = nat n
         \<and> (\<forall>i<nat n. 10 \<le> flow ! i)))"
proof (intro conjI impI)
  assume n: "0 \<le> n"
  from generate_gas_lift_data_frame[OF n, of R self g] obtain gas pdiff wcut oil where
    f: "fst (generate_gas_lift_data R n self g)
          = Inr [(''gas_injection_rate'', gas), (''pressure_diff'', pdiff),
                 (''water_cut'', wcut), (''oil_production'', oil)]"
       "length gas = nat n" "length oil = nat n" "\<forall>v\<in>set oil. 10 \<le> v"
    by blast
  have "df_getitem [(''gas_injection_rate'', gas), (''pressure_diff'', pdiff),
                 (''water_cut'', wcut), (''oil_production'', oil)] ''oil_production'' = Inr oil"
    by (simp add: df_getitem_def)
  moreover have "nrows [(''gas_injection_rate'', gas), (''pressure_diff'', pdiff),
                 (''water_cut'', wcut), (''oil_production'', oil)] = nat n"
    using f(2) by (simp add: nrows_def)
  moreover have "\<forall>i<nat n. 10 \<le> oil ! i" using f(3,4) by simp
  ultimately show "\<exists>data oil. fst (generate_gas_lift_data R n self g) = Inr data
         \<and> df_getitem data ''oil_production'' = Inr oil
         \<and> nrows data = nat n \<and> length oil = nat n
         \<and> (\<forall>i<nat n. 10 \<le> oil ! i)"
    using f(1,3) by blast
next
  assume n: "0 \<le> n"
  from generate_choke_data_frame[OF n, of R self g] obtain csize dp glr_v flow where
    f: "fst (generate_choke_data R n self g)
          = Inr [(''choke_size'', csize), (''delta_p'', dp),
                 (''glr'', glr_v), (''flow_rate'', flow)]"
       "length csize = nat n" "length flow = nat n" "\<forall>v\<in>set flow. 10 \<le> v"
    by blast
  have "df_getitem [(''choke_size'', csize), (''delta_p'', dp),
                 (''glr'', glr_v), (''flow_rate'', flow)] ''flow_rate'' = Inr flow"
    by (simp add: df_getitem_def)
  moreover have "nrows [(''choke_size'', csize), (''delta_p'', dp),
                 (''glr'', glr_v), (''flow_rate'', flow)] = nat n"
    using f(2) by (simp add: nrows_def)
  moreover have "\<forall>i<nat n. 10 \<le> flow ! i" using f(3,4) by simp
  ultimately show "\<exists>data flow. fst (generate_choke_data R n self g) = Inr data
         \<and> df_getitem data ''flow_rate'' = Inr flow
         \<and> nrows data = nat n \<and> length flow = nat n
         \<and> (\<forall>i<nat n. 10 \<le> flow ! i)"
    using f(1,3) by blast
qed

lemma draws_1: "draws f 1 g = (case f g of (x, g1) \<Rightarrow> ([x], g1))"
  by (simp split: prod.splits)

lemma draws_2:
  "draws f 2 g = (case f g of (x, g1) \<Rightarrow> (case f g1 of (y, g2) \<Rightarrow> ([x, y], g2)))"
  by (simp add: numeral_2_eq_2 split: prod.splits)

lemma counter_uniform_2:
  "np_random_uniform counter_rng low high 2 g
     = ([low + (high - low) * (real (g mod 4) / 4),
         low + (high - low) * (real ((g + 1) mod 4) / 4)], g + 2)"
  by (simp add: np_random_uniform_def draws_2 counter_rng_def)

lemma counter_normal_2:
  "np_random_normal counter_rng loc scale 2 g
     = ([loc + scale * (if even g then - 10 else 1),
         loc + scale * (if even (g + 1) then - 10 else 1)], g + 2)"
  by (simp add: np_random_normal_def draws_2 counter_rng_def)

text \<open>
  Two rows drawn with the counter generator: the raw value of the first row is
  \<open>55 + 25 - 95 - 500 = -515\<close> and is clamped to 10; the second, \<open>405/4\<close>, is kept.
\<close>

lemma generate_gas_lift_example:
  "generate_gas_lift_data counter_rng 2 init 0
     = (Inr [(''gas_injection_rate'', [1 / 2, 13 / 8]), (''pressure_diff'', [550, 1125]),
             (''water_cut'', [95 / 2, 285 / 4]), (''oil_production'', [10, 405 / 4])],
        init\<lparr>gas_lift_data :=
          Some [(''gas_injection_rate'', [1 / 2, 13 / 8]), (''pressure_diff'', [550, 1125]),
                (''water_cut'', [95 / 2, 285 / 4]), (''oil_production'', [10, 405 / 4])]\<rparr>,
        10)"
  by (simp add: generate_gas_lift_data_def counter_uniform_2 counter_normal_2
        arr_add_def arr_sub_def scalar_mul_def np_maximum_def Let_def)

theorem generated_target_at_least_floor_witness:
  "(0 :: int) \<le> 2
   \<and> (\<exists>data oil. fst (generate_gas_lift_data counter_rng 2 init 0) = Inr data
         \<and> df_getitem data ''oil_production'' = Inr oil
         \<and> nrows data = 2 \<and> length oil = 2 \<and> (\<forall>i<2. 10 \<le> oil ! i))
   \<and> (\<exists>data flow. fst (generate_choke_data counter_rng 2 init 0) = Inr data
         \<and> df_getitem data ''flow_rate'' = Inr flow
         \<and> nrows data = 2 \<and> length flow = 2 \<and> (\<forall>i<2. 10 \<le> flow ! i))"
proof -
  have n: "(0 :: int) \<le> 2" and m: "nat 2 = 2" by simp_all
  from generated_target_at_least_floor[of 2 counter_rng init 0] n
  show ?thesis unfolding m by blast
qed

subsection \<open>Generation depends on the generator state\<close>

lemma generate_gas_lift_data_ignores_object:
  "fst (generate_gas_lift_data R n self1 g) = fst (generate_gas_lift_data R n self2 g)"
  "snd (snd (generate_gas_lift_data R n self1 g)) = snd (snd (generate_gas_lift_data R n self2 g))"
  by (simp_all add: generate_gas_lift_data_def Let_def split: prod.splits)

lemma generate_choke_data_ignores_object:
  "fst (generate_choke_data R n self1 g) = fst (generate_choke_data R n self2 g)"
  "snd (snd (generate_choke_data R n self1 g)) = snd (snd (generate_choke_data R n self2 g))"
  by (simp_all add: generate_choke_data_def Let_def split: prod.splits)

lemma snd_draws_add: "snd (draws f (a + b) g) = snd (draws f b (snd (draws f a g)))"
  by (induction a arbitrary: g) (simp_all add: case_prod_unfold)

lemma snd_np_random_uniform:
  "snd (np_random_uniform R low high n g) = snd (draws (random_sample R) n g)"
  by (simp add: np_random_uniform_def split: prod.splits)

lemma snd_np_random_normal:
  "snd (np_random_normal R loc scale n g) = snd (draws (standard_normal R) n g)"
  by (simp add: np_random_normal_def split: prod.splits)

lemma four_uniform_draws:
  "snd (draws f k (snd (draws f k (snd (draws f k (snd (draws f k g)))))))
     = snd (draws f (4 * k) g)"
proof -
  have "4 * k = ((k + k) + k) + k" by simp
  then show ?thesis by (simp only: snd_draws_add)
qed

lemma generate_gas_lift_data_state:
  assumes "0 \<le> n"
  shows "snd (snd (generate_gas_lift_data R n self g))
           = snd (draws (standard_normal R) (nat n)
                   (snd (draws (random_sample R) (4 * nat n) g)))"
proof -
  obtain u1 g1 where a: "np_random_uniform R 1000 4000 (nat n) g = (u1, g1)" by fastforce
  obtain u2 g2 where b: "np_random_uniform R 100 800 (nat n) g1 = (u2, g2)" by fastforce
  obtain gas g3 where c: "np_random_uniform R (5 / 10) 5 (nat n) g2 = (gas, g3)" by fastforce
  obtain wcut g4 where d: "np_random_uniform R 0 95 (nat n) g3 = (wcut, g4)" by fastforce
  obtain noise g5 where e: "np_random_normal R 0 50 (nat n) g4 = (noise, g5)" by fastforce
  have s: "snd (snd (generate_gas_lift_data R n self g)) = g5"
    using assms a b c d e by (simp add: generate_gas_lift_data_def Let_def)
  have "g1 = snd (draws (random_sample R) (nat n) g)"
    using snd_np_random_uniform[of R 1000 4000 "nat n" g] a by simp
  moreover have "g2 = snd (draws (random_sample R) (nat n) g1)"
    using snd_np_random_uniform[of R 100 800 "nat n" g1] b by simp
  moreover have "g3 = snd (draws (random_sample R) (nat n) g2)"
    using snd_np_random_uniform[of R "5 / 10" 5 "nat n" g2] c by simp
  moreover have "g4 = snd (draws (random_sample R) (nat n) g3)"
    using snd_np_random_uniform[of R 0 95 "nat n" g3] d by simp
  moreover have "g5 = snd (draws (standard_normal R) (nat n) g4)"
    using snd_np_random_normal[of R 0 50 "nat n" g4] e by simp
  ultimately have "g5 = snd (draws (standard_normal R) (nat n)
                   (snd (draws (random_sample R) (4 * nat n) g)))"
    by (simp add: four_uniform_draws)
  with s show ?thesis by simp
qed

lemma generate_choke_data_state:
  assumes "0 \<le> n"
  shows "snd (snd (generate_choke_data R n self g))
           = snd (draws (standard_normal R) (nat n)
                   (snd (draws (random_sample R) (4 * nat n) g)))"
proof -
  obtain csize g1 where a: "np_random_uniform R 8 64 (nat n) g = (csize, g1)" by fastforce
  obtain u1 g2 where b: "np_random_uniform R 500 3000 (nat n) g1 = (u1, g2)" by fastforce
  obtain u2 g3 where c: "np_random_uniform R 50 500 (nat n) g2 = (u2, g3)" by fastforce
  obtain glr_v g4 where d: "np_random_uniform R 100 2000 (nat n) g3 = (glr_v, g4)" by fastforce
  obtain noise g5 where e: "np_random_normal R 0 50 (nat n) g4 = (noise, g5)" by fastforce
  have s: "snd (snd (generate_choke_data R n self g)) = g5"
    using assms a b c d e by (simp add: generate_choke_data_def Let_def)
  have "g1 = snd (draws (random_sample R) (nat n) g)"
    using snd_np_random_uniform[of R 8 64 "nat n" g] a by simp
  moreover have "g2 = snd (draws (random_sample R) (nat n) g1)"
    using snd_np_random_uniform[of R 500 3000 "nat n" g1] b by simp
  moreover have "g3 = snd (draws (random_sample R) (nat n) g2)"
    using snd_np_random_uniform[of R 50 500 "nat n" g2] c by simp
  moreover have "g4 = snd (draws (random_sample R) (nat n) g3)"
    using snd_np_random_uniform[of R 100 2000 "nat n" g3] d by simp
  moreover have "g5 = snd (draws (standard_normal R) (nat n) g4)"
    using snd_np_random_normal[of R 0 50 "nat n" g4] e by simp
  ultimately have "g5 = snd (draws (standard_normal R) (nat n)
                   (snd (draws (random_sample R) (4 * nat n) g)))"
    by (simp add: four_uniform_draws)
  with s show ?thesis by simp
qed

lemma counter_gas_lift_first_call:
  "generate_gas_lift_data counter_rng 1 init (np_random_seed counter_rng 42 0)
     = (Inr [(''gas_injection_rate'', [1 / 2]), (''pressure_diff'', [1875]),
             (''water_cut'', [95 / 4]), (''oil_production'', [10])],
        init\<lparr>gas_lift_data :=
          Some [(''gas_injection_rate'', [1 / 2]), (''pressure_diff'', [1875]),
                (''water_cut'', [95 / 4]), (''oil_production'', [10])]\<rparr>,
        47)"
  by (simp add: generate_gas_lift_data_def np_random_uniform_def np_random_normal_def
        np_random_seed_def draws_1 counter_rng_def arr_add_def arr_sub_def scalar_mul_def
        np_maximum_def Let_def)

lemma counter_gas_lift_second_call:
  "fst (generate_gas_lift_data counter_rng 1 self 47)
     = Inr [(''gas_injection_rate'', [13 / 8]), (''pressure_diff'', [3150]),
            (''water_cut'', [95 / 2]), (''oil_production'', [1405 / 4])]"
  by (simp add: generate_gas_lift_data_def np_random_uniform_def np_random_normal_def
        draws_1 counter_rng_def arr_add_def arr_sub_def scalar_mul_def
        np_maximum_def Let_def)

lemma counter_draws_state:
  "snd (draws (random_sample counter_rng) k g) = g + k"
  "snd (draws (standard_normal counter_rng) k g) = g + k"
  by (induction k arbitrary: g) (simp_all add: counter_rng_def case_prod_unfold)

text \<open>
  Two consecutive calls under one seeding: with the counter generator seeded with 42,
  the first call with \<open>n = 1\<close> returns a row with \<open>oil_production = 10\<close> and leaves the
  generator at state 47; the second call, made on the object and the generator state
  that the first call left, returns a different row, with \<open>oil_production = 1405/4\<close>.
\<close>

theorem second_call_under_one_seed_differs:
  "fst (generate_gas_lift_data counter_rng 1 init (np_random_seed counter_rng 42 0))
     = Inr [(''gas_injection_rate'', [1 / 2]), (''pressure_diff'', [1875]),
            (''water_cut'', [95 / 4]), (''oil_production'', [10])]
   \<and> fst (generate_gas_lift_data counter_rng 1
            (fst (snd (generate_gas_lift_data counter_rng 1 init
                         (np_random_seed counter_rng 42 0))))
            (snd (snd (generate_gas_lift_data counter_rng 1 init
                         (np_random_seed counter_rng 42 0)))))
     = Inr [(''gas_injection_rate'', [13 / 8]), (''pressure_diff'', [3150]),
            (''water_cut'', [95 / 2]), (''oil_production'', [1405 / 4])]
   \<and> fst (generate_gas_lift_data counter_rng 1 init (np_random_seed counter_rng 42 0))
     \<noteq> fst (generate_gas_lift_data counter_rng 1
            (fst (snd (generate_gas_lift_data counter_rng 1 init
                         (np_random_seed counter_rng 42 0))))
            (snd (snd (generate_gas_lift_data counter_rng 1 init
                         (np_random_seed counter_rng 42 0)))))"
  by (simp add: counter_gas_lift_first_call counter_gas_lift_second_call)

text \<open>
  Claim C6, amended. The dataset a generator returns depends only on the state of the
  process-wide random generator at the call and on \<open>n\<close>, not on the optimizer object:
  two calls made right after seeding with the same seed, with the same \<open>n\<close>, return
  the same dataset. A call with \<open>n \<ge> 0\<close> advances the generator by \<open>4 n\<close> uniform
  draws followed by \<open>n\<close> normal draws, so a second call under the same seeding draws
  from another state.
\<close>

theorem generate_depends_on_generator_state:
  "fst (generate_gas_lift_data R n self1 g) = fst (generate_gas_lift_data R n self2 g)
   \<and> fst (generate_choke_data R n self1 g) = fst (generate_choke_data R n self2 g)
   \<and> fst (generate_gas_lift_data R n self1 (np_random_seed R seed g1))
       = fst (generate_gas_lift_data R n self2 (np_random_seed R seed g2))
   \<and> fst (generate_choke_data R n self1 (np_random_seed R seed g1))
       = fst (generate_choke_data R n self2 (np_random_seed R seed g2))
   \<and> (0 \<le> n \<longrightarrow>
        snd (snd (generate_gas_lift_data R n self g))
          = snd (draws (standard_normal R) (nat n)
                  (snd (draws (random_sample R) (4 * nat n) g))))
   \<and> (0 \<le> n \<longrightarrow>
        snd (snd (generate_choke_data R n self g))
          = snd (draws (standard_normal R) (nat n)
                  (snd (draws (random_sample R) (4 * nat n) g))))"
proof (intro conjI impI)
  show "fst (generate_gas_lift_data R n self1 g) = fst (generate_gas_lift_data R n self2 g)"
    by (rule generate_gas_lift_data_ignores_object(1))
  show "fst (generate_choke_data R n self1 g) = fst (generate_choke_data R n self2 g)"
    by (rule generate_choke_data_ignores_object(1))
  show "fst (generate_gas_lift_data R n self1 (np_random_seed R seed g1))
       = fst (generate_gas_lift_data R n self2 (np_random_seed R seed g2))"
    unfolding np_random_seed_def by (rule generate_gas_lift_data_ignores_object(1))
  show "fst (generate_choke_data R n self1 (np_random_seed R seed g1))
       = fst (generate_choke_data R n self2 (np_random_seed R seed g2))"
    unfolding np_random_seed_def by (rule generate_choke_data_ignores_object(1))
next
  assume "0 \<le> n"
  then show "snd (snd (generate_gas_lift_data R n self g))
          = snd (draws (standard_normal R) (nat n)
                  (snd (draws (random_sample R) (4 * nat n) g)))"
    by (rule generate_gas_lift_data_state)
next
  assume "0 \<le> n"
  then show "snd (snd (generate_choke_data R n self g))
          = snd (draws (standard_normal R) (nat n)
                  (snd (draws (random_sample R) (4 * nat n) g)))"
    by (rule generate_choke_data_state)
qed

theorem generate_depends_on_generator_state_witness:
  "(0 :: int) \<le> 1
   \<and> snd (snd (generate_gas_lift_data counter_rng 1 init 42)) = 47
   \<and> snd (snd (generate_choke_data counter_rng 1 init 42)) = 47"
proof -
  note t = generate_depends_on_generator_state[where R = counter_rng and n = 1
          and self = init and g = 42 and ?self1.0 = init and ?self2.0 = init
          and seed = 42 and ?g1.0 = 0 and ?g2.0 = 0]
  have n: "(0 :: int) \<le> 1" by simp
  from t n have
    "snd (snd (generate_gas_lift_data counter_rng 1 init 42))
       = snd (draws (standard_normal counter_rng) (nat 1)
               (snd (draws (random_sample counter_rng) (4 * nat 1) 42)))"
    "snd (snd (generate_choke_data counter_rng 1 init 42))
       = snd (draws (standard_normal counter_rng) (nat 1)
               (snd (draws (random_sample counter_rng) (4 * nat 1) 42)))"
    by blast+
  moreover have
    "snd (draws (standard_normal counter_rng) (nat 1)
           (snd (draws (random_sample counter_rng) (4 * nat 1) 42))) = 47"
    unfolding counter_draws_state by simp
  ultimately have "snd (snd (generate_gas_lift_data counter_rng 1 init 42)) = 47"
    and "snd (snd (generate_choke_data counter_rng 1 init 42)) = 47"
    by (simp_all only:)
  with n show ?thesis by (intro conjI)
qed

subsection \<open>Training on fewer than two rows\<close>

lemma train_test_split_small:
  assumes "nrows X < 2"
  shows "train_test_split S X y = Inl ValueError"
proof -
  from assms have "nrows X = 0 \<or> nrows X = 1" by auto
  then show ?thesis
  proof
    assume "nrows X = 0"
    then show ?thesis by (simp add: train_test_split_def)
  next
    assume n: "nrows X = 1"
    have "\<lceil>(2 / 10 :: real)\<rceil> = 1" by (simp add: ceiling_eq_iff)
    with n show ?thesis by (simp add: train_test_split_def)
  qed
qed

lemma df_getitem_after_drop:
  assumes "df_drop label df = Inr X"
  shows "\<exists>y. df_getitem df label = Inr y"
proof -
  from assms have "label \<in> set (map fst df)"
    by (simp add: df_drop_def split: if_splits)
  then have "label \<in> fst ` set df" by simp
  then have "map_of df label \<noteq> None" by (simp add: map_of_eq_None_iff)
  then show ?thesis by (auto simp: df_getitem_def)
qed

lemma train_gas_lift_model_small:
  assumes "gas_lift_data self = Some data" "df_drop ''oil_production'' data = Inr X"
    "nrows X < 2"
  shows "train_gas_lift_model S self g = (Inl ValueError, self, g)"
proof -
  from df_getitem_after_drop[OF assms(2)] obtain y where
    "df_getitem data ''oil_production'' = Inr y" by blast
  with assms(1,2) train_test_split_small[OF assms(3), of S y] show ?thesis
    by (simp add: train_gas_lift_model_def)
qed

lemma train_choke_model_small:
  assumes "choke_data self = Some data" "df_drop ''flow_rate'' data = Inr X"
    "nrows X < 2"
  shows "train_choke_model S self g = (Inl ValueError, self, g)"
proof -
  from df_getitem_after_drop[OF assms(2)] obtain y where
    "df_getitem data ''flow_rate'' = Inr y" by blast
  with assms(1,2) train_test_split_small[OF assms(3), of S y] show ?thesis
    by (simp add: train_choke_model_def)
qed

lemma generate_gas_lift_one_row:
  "generate_gas_lift_data counter_rng 1 init 0
     = (Inr [(''gas_injection_rate'', [11 / 4]), (''pressure_diff'', [725]),
             (''water_cut'', [285 / 4]), (''oil_production'', [10])],
        init\<lparr>gas_lift_data :=
          Some [(''gas_injection_rate'', [11 / 4]), (''pressure_diff'', [725]),
                (''water_cut'', [285 / 4]), (''oil_production'', [10])]\<rparr>,
        5)"
  by (simp add: generate_gas_lift_data_def np_random_uniform_def np_random_normal_def
        draws_1 counter_rng_def arr_add_def arr_sub_def scalar_mul_def np_maximum_def Let_def)

text \<open>
  Training on the one-row dataset that the counter generator gives fails in
  \<^verbatim>\<open>train_test_split\<close> with \<open>ValueError\<close>, not with \<open>InsufficientDataError\<close>.
\<close>

theorem train_one_row_raises_value_error:
  "train_gas_lift_model stub_sklearn
      (fst (snd (generate_gas_lift_data counter_rng 1 init 0)))
      (snd (snd (generate_gas_lift_data counter_rng 1 init 0)))
     = (Inl ValueError, fst (snd (generate_gas_lift_data counter_rng 1 init 0)), 5)
   \<and> fst (train_gas_lift_model stub_sklearn
             (fst (snd (generate_gas_lift_data counter_rng 1 init 0)))
             (snd (snd (generate_gas_lift_data counter_rng 1 init 0))))
       \<noteq> Inl InsufficientDataError"
proof -
  let ?self = "fst (snd (generate_gas_lift_data counter_rng 1 init 0))"
  have d: "gas_lift_data ?self
             = Some [(''gas_injection_rate'', [11 / 4]), (''pressure_diff'', [725]),
                     (''water_cut'', [285 / 4]), (''oil_production'', [10])]"
    by (simp add: generate_gas_lift_one_row)
  have x: "df_drop ''oil_production''
             [(''gas_injection_rate'', [11 / 4]), (''pressure_diff'', [725]),
              (''water_cut'', [285 / 4]), (''oil_production'', [10])]
           = Inr [(''gas_injection_rate'', [11 / 4]), (''pressure_diff'', [725]),
                  (''water_cut'', [285 / 4 :: real])]"
    by (simp add: df_drop_def)
  have n: "nrows [(''gas_injection_rate'', [11 / 4]), (''pressure_diff'', [725]),
                  (''water_cut'', [285 / 4 :: real])] < 2"
    by (simp add: nrows_def)
  have "train_gas_lift_model stub_sklearn ?self 5 = (Inl ValueError, ?self, 5)"
    by (rule train_gas_lift_model_small[OF d x n])
  then show ?thesis by (simp add: generate_gas_lift_one_row)
qed

text \<open>
  Claim C5, amended. When the stored dataset has the target column and fewer than two
  rows, each train method fails with \<open>ValueError\<close>, raised by the split because the
  training partition would be empty; the object and the generator stay as they were.
\<close>

theorem train_small_dataset_value_error:
  "(gas_lift_data self = Some data \<longrightarrow> df_drop ''oil_production'' data = Inr X \<longrightarrow>
    nrows X < 2 \<longrightarrow>
      train_gas_lift_model S self g = (Inl ValueError, self, g))
   \<and> (choke_data self = Some data' \<longrightarrow> df_drop ''flow_rate'' data' = Inr X' \<longrightarrow>
      nrows X' < 2 \<longrightarrow>
      train_choke_model S self g = (Inl ValueError, self, g))"
proof (intro conjI impI)
  assume "gas_lift_data self = Some data" "df_drop ''oil_production'' data = Inr X"
    "nrows X < 2"
  then show "train_gas_lift_model S self g = (Inl ValueError, self, g)"
    by (rule train_gas_lift_model_small)
next
  assume "choke_data self = Some data'" "df_drop ''flow_rate'' data' = Inr X'"
    "nrows X' < 2"
  then show "train_choke_model S self g = (Inl ValueError, self, g)"
    by (rule train_choke_model_small)
qed

theorem train_small_dataset_value_error_witness:
  "gas_lift_data one_row_optimizer
     = Some [(''gas_injection_rate'', [3]), (''pressure_diff'', [2000]),
             (''water_cut'', [30]), (''oil_production'', [290])]
   \<and> df_drop ''oil_production''
        [(''gas_injection_rate'', [3]), (''pressure_diff'', [2000]),
         (''water_cut'', [30]), (''oil_production'', [290])]
     = Inr [(''gas_injection_rate'', [3]), (''pressure_diff'', [2000]), (''water_cut'', [30])]
   \<and> nrows [(''gas_injection_rate'', [3]), (''pressure_diff'', [2000]), (''water_cut'', [30])] < 2
   \<and> train_gas_lift_model stub_sklearn one_row_optimizer 0
     = (Inl ValueError, one_row_optimizer, 0)
   \<and> choke_data one_row_optimizer
     = Some [(''choke_size'', [16]), (''delta_p'', [1200]),
             (''glr'', [500]), (''flow_rate'', [831])]
   \<and> df_drop ''flow_rate''
        [(''choke_size'', [16]), (''delta_p'', [1200]), (''glr'', [500]), (''flow_rate'', [831])]
     = Inr [(''choke_size'', [16]), (''delta_p'', [1200]), (''glr'', [500])]
   \<and> nrows [(''choke_size'', [16]), (''delta_p'', [1200]), (''glr'', [500])] < 2
   \<and> train_choke_model stub_sklearn one_row_optimizer 0
     = (Inl ValueError, one_row_optimizer, 0)"
proof -
  have a: "gas_lift_data one_row_optimizer
     = Some [(''gas_injection_rate'', [3]), (''pressure_diff'', [2000]),
             (''water_cut'', [30]), (''oil_production'', [290])]"
    and b: "df_drop ''oil_production''
        [(''gas_injection_rate'', [3]), (''pressure_diff'', [2000]),
         (''water_cut'', [30]), (''oil_production'', [290])]
     = Inr [(''gas_injection_rate'', [3 :: real]), (''pressure_diff'', [2000]), (''water_cut'', [30])]"
    and c: "nrows [(''gas_injection_rate'', [3 :: real]), (''pressure_diff'', [2000]), (''water_cut'', [30])] < 2"
    and d: "choke_data one_row_optimizer
     = Some [(''choke_size'', [16]), (''delta_p'', [1200]),
             (''glr'', [500]), (''flow_rate'', [831])]"
    and e: "df_drop ''flow_rate''
        [(''choke_size'', [16]), (''delta_p'', [1200]), (''glr'', [500]), (''flow_rate'', [831])]
     = Inr [(''choke_size'', [16 :: real]), (''delta_p'', [1200]), (''glr'', [500])]"
    and f: "nrows [(''choke_size'', [16 :: real]), (''delta_p'', [1200]), (''glr'', [500])] < 2"
    by (simp_all add: one_row_optimizer_def init_def df_drop_def nrows_def)
  from train_small_dataset_value_error[of one_row_optimizer _ _ stub_sklearn 0] a b c d e f
  show ?thesis by blast
qed

end
